theory Spec2Isabelle
  imports Main "HOL-Library.Word"
begin

section \<open>Data model\<close>

text \<open>
  The file handlers of \<^verbatim>\<open>packages/backend/convex/private/files.ts\<close> run against three
  stores: the platform's blob storage (\<^verbatim>\<open>ctx.storage\<close>), and the entry and chunk tables
  kept by the RAG component (\<^verbatim>\<open>rag\<close>).  Identifiers are opaque strings in the
  source; here they are numbered, and each store hands out the next number.
\<close>

datatype storage_id = StorageId nat

datatype entry_id = EntryId nat

type_synonym bytes = "8 word list"

text \<open>\<^verbatim>\<open>new Blob([bytes], { type: mimeType })\<close>\<close>

record blob =
  blobParts :: bytes
  blobType :: string

text \<open>
  \<^verbatim>\<open>new ConvexError({ code, message })\<close>, and any other exception raised by a
  collaborator (text extraction, the embedding model).
\<close>

datatype error = ConvexError string string | Thrown string

text \<open>
  The metadata object that \<^verbatim>\<open>addFile\<close> hands to \<^verbatim>\<open>rag.add\<close>.  The component
  stores a free-form map, so \<^verbatim>\<open>deleteFile\<close> reads every field with \<^verbatim>\<open>?.\<close>: each
  may be missing.
\<close>

record metadata =
  md_storageId :: "storage_id option"
  md_uploadedBy :: "string option"
  md_filename :: "string option"
  md_category :: "string option"

record entry =
  entryId :: entry_id
  namespace :: string
  key :: string
  title :: string
  contentHash :: string
  entry_metadata :: "metadata option"

type_synonym vector = "int list"

record chunk =
  chunkEntryId :: entry_id
  chunkNamespace :: string
  chunkOrder :: nat
  chunkText :: string
  chunkVector :: vector

text \<open>The argument object of \<^verbatim>\<open>extractTextContent(ctx, {storageId, filename, bytes, mimeType})\<close>.\<close>

record extract_args =
  ex_storageId :: storage_id
  ex_filename :: string
  ex_bytes :: bytes
  ex_mimeType :: string

text \<open>
  Every call a handler makes on a collaborator is recorded, in order.  The writes carry
  what they wrote, so that a handler's events can be replayed.
\<close>

datatype event =
    StorageStore storage_id blob
  | StorageGetUrl storage_id
  | StorageDelete storage_id
  | ExtractTextContent extract_args
  | ContentHash bytes
  | NamespaceCreate string
  | EntryInsert entry "chunk list"
  | ChunksDelete entry_id
  | EntryDelete entry_id
  | ConsoleDebug string

record world =
  storage :: "(storage_id \<times> blob) list"
  storageNext :: nat
  namespaces :: "string list"
  entries :: "entry list"
  entryNext :: nat
  chunks :: "chunk list"
  log :: "event list"

text \<open>\<^verbatim>\<open>ctx.auth.getUserIdentity()\<close> resolves to an identity or to \<^verbatim>\<open>null\<close>;
  \<^verbatim>\<open>identity.orgId\<close> is a custom claim and may be undefined.\<close>

record user_identity =
  tokenIdentifier :: string
  orgId :: "string option"

record ctx =
  auth_getUserIdentity :: "user_identity option"

text \<open>
  The collaborators whose code is outside the repository sources, taken as parameters:
  the MIME detectors and the content hash of \<^verbatim>\<open>@convex-dev/rag\<close>, the repository's
  own \<^verbatim>\<open>lib/extractTextContent\<close> (which may throw), the URL the platform issues for
  a stored blob, and the chunker and embedding model behind \<^verbatim>\<open>rag.add\<close> (the
  embedding call may throw).  A detector returns \<^verbatim>\<open>undefined\<close> as \<open>None\<close>.
\<close>

record env =
  guessMimeTypeFromExtension :: "string \<Rightarrow> string option"
  guessMimeTypeFromContents :: "bytes \<Rightarrow> string option"
  contentHashFromArrayBuffer :: "bytes \<Rightarrow> string"
  extractTextContent :: "extract_args \<Rightarrow> error + string"
  storageUrl :: "storage_id \<Rightarrow> string"
  chunker :: "string \<Rightarrow> string list"
  embed :: "string \<Rightarrow> error + vector"

text \<open>A JavaScript object literal: its fields in order, with their values.\<close>

datatype js_value = JSNull | JSString string | JSEntryId entry_id

type_synonym js_object = "(string \<times> js_value) list"

section \<open>The stores\<close>

text \<open>The change each event makes to the stores; reads and log lines change nothing.\<close>

fun effect :: "event \<Rightarrow> world \<Rightarrow> world" where
  "effect (StorageStore sid b) w =
     w\<lparr>storage := storage w @ [(sid, b)], storageNext := Suc (storageNext w)\<rparr>"
| "effect (StorageDelete sid) w =
     w\<lparr>storage := filter (\<lambda>row. fst row \<noteq> sid) (storage w)\<rparr>"
| "effect (NamespaceCreate n) w = w\<lparr>namespaces := namespaces w @ [n]\<rparr>"
| "effect (EntryInsert e cs) w =
     w\<lparr>entries := entries w @ [e], entryNext := Suc (entryNext w), chunks := chunks w @ cs\<rparr>"
| "effect (ChunksDelete eid) w =
     w\<lparr>chunks := filter (\<lambda>c. chunkEntryId c \<noteq> eid) (chunks w)\<rparr>"
| "effect (EntryDelete eid) w =
     w\<lparr>entries := filter (\<lambda>e. entryId e \<noteq> eid) (entries w)\<rparr>"
| "effect (StorageGetUrl sid) w = w"
| "effect (ExtractTextContent a) w = w"
| "effect (ContentHash b) w = w"
| "effect (ConsoleDebug s) w = w"

definition perform :: "event \<Rightarrow> world \<Rightarrow> world" where
  "perform e w = (effect e w)\<lparr>log := log w @ [e]\<rparr>"

text \<open>Running a list of events from a state: the state an execution is in after them.\<close>

definition replay :: "event list \<Rightarrow> world \<Rightarrow> world" where
  "replay es w = foldl (\<lambda>s e. perform e s) w es"

text \<open>
  Modelled from the spec: the Blob Store Adapter (\<^verbatim>\<open>ctx.storage\<close>, platform code), with
  the interface \<^verbatim>\<open>store(bytes) -> storageId\<close>, \<^verbatim>\<open>getUrl(storageId) -> url\<close>,
  \<^verbatim>\<open>delete(storageId) -> void\<close>.  \<^verbatim>\<open>store\<close> returns an identifier never issued
  before; \<^verbatim>\<open>getUrl\<close> is \<^verbatim>\<open>null\<close> for a blob that is not stored.
\<close>

definition storage_store :: "blob \<Rightarrow> world \<Rightarrow> storage_id \<times> world" where
  "storage_store b w =
     (let sid = StorageId (storageNext w) in (sid, perform (StorageStore sid b) w))"

definition storage_getUrl :: "env \<Rightarrow> storage_id \<Rightarrow> world \<Rightarrow> string option \<times> world" where
  "storage_getUrl env sid w =
     ((case map_of (storage w) sid of None \<Rightarrow> None | Some b \<Rightarrow> Some (storageUrl env sid)),
      perform (StorageGetUrl sid) w)"

definition storage_delete :: "storage_id \<Rightarrow> world \<Rightarrow> world" where
  "storage_delete sid w = perform (StorageDelete sid) w"

text \<open>
  Modelled from the spec: the Namespace Registry and Entry Store lookups of the RAG
  component (\<^verbatim>\<open>rag.getNamespace\<close>, \<^verbatim>\<open>rag.getEntry\<close>, library code).  Both resolve to
  \<^verbatim>\<open>null\<close> when nothing is registered under the name or identifier.
\<close>

definition rag_getNamespace :: "world \<Rightarrow> string \<Rightarrow> string option" where
  "rag_getNamespace w n = (if n \<in> set (namespaces w) then Some n else None)"

definition rag_getEntry :: "world \<Rightarrow> entry_id \<Rightarrow> entry option" where
  "rag_getEntry w eid = find (\<lambda>e. entryId e = eid) (entries w)"

text \<open>
  Modelled from the spec: \<^verbatim>\<open>rag.deleteAsync\<close> (library code).  ``Delete all Chunks
  owned by the Entry, then delete the Entry metadata record.''
\<close>

definition rag_deleteAsync :: "entry_id \<Rightarrow> world \<Rightarrow> world" where
  "rag_deleteAsync eid w = perform (EntryDelete eid) (perform (ChunksDelete eid) w)"

section \<open>deleteFile\<close>

record deleteFile_args =
  del_entryId :: entry_id

text \<open>
  The handler of the \<^verbatim>\<open>deleteFile\<close> mutation.  \<^verbatim>\<open>!orgId\<close> holds for an undefined
  claim and for the empty string.  A mutation is a transaction: it either runs to its end
  or, when it throws, writes nothing; so the function returns the state after all the
  writes or, with an error, the state before the call.
\<close>

definition deleteFile :: "ctx \<Rightarrow> deleteFile_args \<Rightarrow> world \<Rightarrow> (error + unit) \<times> world" where
  "deleteFile c args w =
     (case auth_getUserIdentity c of
        None \<Rightarrow> (Inl (ConvexError ''UNAUTHORIZED'' ''Identity not found''), w)
      | Some identity \<Rightarrow>
          (case orgId identity of
             None \<Rightarrow> (Inl (ConvexError ''UNAUTHORIZED'' ''Organization not found''), w)
           | Some org \<Rightarrow>
               if org = [] then
                 (Inl (ConvexError ''UNAUTHORIZED'' ''Organization not found''), w)
               else
                 (case rag_getNamespace w org of
                    None \<Rightarrow> (Inl (ConvexError ''UNAUTHORIZED'' ''Invalid namespace''), w)
                  | Some ns \<Rightarrow>
                      (case rag_getEntry w (del_entryId args) of
                         None \<Rightarrow> (Inl (ConvexError ''NOT_FOUND'' ''Entry not found''), w)
                       | Some e \<Rightarrow>
                           if (case entry_metadata e of None \<Rightarrow> None
                               | Some m \<Rightarrow> md_uploadedBy m) \<noteq> Some org
                           then
                             (Inl (ConvexError ''UNAUTHORIZED'' ''Invalid Organization ID''), w)
                           else
                             let w1 = (case (case entry_metadata e of None \<Rightarrow> None
                                             | Some m \<Rightarrow> md_storageId m) of
                                         None \<Rightarrow> w
                                       | Some sid \<Rightarrow> storage_delete sid w)
                             in (Inr (), rag_deleteAsync (del_entryId args) w1)))))"

section \<open>rag.add\<close>

record rag_add_args =
  add_namespace :: string
  add_text :: string
  add_key :: string
  add_title :: string
  add_metadata :: metadata
  add_contentHash :: string

text \<open>One embedding per chunk; the first failing call of the embedding model fails the batch.\<close>

fun embed_all :: "env \<Rightarrow> string list \<Rightarrow> error + vector list" where
  "embed_all env [] = Inr []"
| "embed_all env (t # ts) =
     (case embed env t of
        Inl e \<Rightarrow> Inl e
      | Inr v \<Rightarrow> (case embed_all env ts of Inl e \<Rightarrow> Inl e | Inr vs \<Rightarrow> Inr (v # vs)))"

definition make_chunks :: "entry_id \<Rightarrow> string \<Rightarrow> string list \<Rightarrow> vector list \<Rightarrow> chunk list" where
  "make_chunks eid n ts vs =
     map (\<lambda>(i, t, v). \<lparr>chunkEntryId = eid, chunkNamespace = n, chunkOrder = i,
                        chunkText = t, chunkVector = v\<rparr>)
         (zip [0 ..< length ts] (zip ts vs))"

text \<open>
  Modelled from the spec: \<^verbatim>\<open>rag.add\<close> (library code), the Entry Store and
  Embedding/Chunk Index behind the Ingestion Pipeline.  An Entry is ``created by the
  Ingestion Pipeline when no existing Entry in the same namespace has the same
  \<^verbatim>\<open>contentHash\<close>''; otherwise ``\<^verbatim>\<open>created=false\<close> is returned [...] and the existing
  Entry's identity is returned instead of creating a new one'', with no ``duplicate chunk
  computation''.  ``On a genuinely new hash: [...] split into chunks, compute embeddings
  per chunk, and persist Entry + Chunks as a single logical unit''; a failed embedding
  leaves no Entry and no chunk behind.  The namespace is registered on first use.
\<close>

definition findExisting :: "world \<Rightarrow> string \<Rightarrow> string \<Rightarrow> entry option" where
  "findExisting w n h = find (\<lambda>e. namespace e = n \<and> contentHash e = h) (entries w)"

definition rag_add :: "env \<Rightarrow> rag_add_args \<Rightarrow> world \<Rightarrow> (error + entry_id \<times> bool) \<times> world" where
  "rag_add env a w =
     (let w1 = (if add_namespace a \<in> set (namespaces w) then w
                else perform (NamespaceCreate (add_namespace a)) w)
      in case findExisting w1 (add_namespace a) (add_contentHash a) of
           Some e \<Rightarrow> (Inr (entryId e, False), w1)
         | None \<Rightarrow>
             (case embed_all env (chunker env (add_text a)) of
                Inl err \<Rightarrow> (Inl err, w1)
              | Inr vs \<Rightarrow>
                  let eid = EntryId (entryNext w1);
                      e = \<lparr>entryId = eid, namespace = add_namespace a, key = add_key a,
                           title = add_title a, contentHash = add_contentHash a,
                           entry_metadata = Some (add_metadata a)\<rparr>;
                      cs = make_chunks eid (add_namespace a) (chunker env (add_text a)) vs
                  in (Inr (eid, True), perform (EntryInsert e cs) w1)))"

section \<open>addFile\<close>

text \<open>
  \<^verbatim>\<open>a || b || "application/octet-stream"\<close>: JavaScript's \<^verbatim>\<open>||\<close> passes over
  \<^verbatim>\<open>undefined\<close> and over the empty string.
\<close>

definition guessMimeType :: "env \<Rightarrow> string \<Rightarrow> bytes \<Rightarrow> string" where
  "guessMimeType env filename bs =
     (let fromContents =
            (case guessMimeTypeFromContents env bs of
               None \<Rightarrow> ''application/octet-stream''
             | Some t \<Rightarrow> if t = [] then ''application/octet-stream'' else t)
      in case guessMimeTypeFromExtension env filename of
           None \<Rightarrow> fromContents
         | Some t \<Rightarrow> if t = [] then fromContents else t)"

text \<open>The calls on the collaborators that only read, and \<^verbatim>\<open>console.debug\<close>.\<close>

definition call_extractTextContent ::
  "env \<Rightarrow> extract_args \<Rightarrow> world \<Rightarrow> (error + string) \<times> world" where
  "call_extractTextContent env a w = (extractTextContent env a, perform (ExtractTextContent a) w)"

definition call_contentHashFromArrayBuffer :: "env \<Rightarrow> bytes \<Rightarrow> world \<Rightarrow> string \<times> world" where
  "call_contentHashFromArrayBuffer env bs w =
     (contentHashFromArrayBuffer env bs, perform (ContentHash bs) w)"

definition console_debug :: "string \<Rightarrow> world \<Rightarrow> world" where
  "console_debug s w = perform (ConsoleDebug s) w"

record addFile_args =
  arg_filename :: string
  arg_mimeType :: string
  arg_bytes :: bytes
  arg_category :: "string option"

text \<open>
  The handler of the \<^verbatim>\<open>addFile\<close> action.  An action is not a transaction: what it
  wrote before an exception stays written, so the state is returned with the error as well.
  The arguments of \<^verbatim>\<open>rag.add\<close> are evaluated before the call, the content hash among
  them.
\<close>

definition addFile :: "env \<Rightarrow> ctx \<Rightarrow> addFile_args \<Rightarrow> world \<Rightarrow> (error + js_object) \<times> world" where
  "addFile env c args w =
     (case auth_getUserIdentity c of
        None \<Rightarrow> (Inl (ConvexError ''UNAUTHORIZED'' ''Identity not found''), w)
      | Some identity \<Rightarrow>
          (case orgId identity of
             None \<Rightarrow> (Inl (ConvexError ''UNAUTHORIZED'' ''Organization not found''), w)
           | Some org \<Rightarrow>
               (if org = [] then
                  (Inl (ConvexError ''UNAUTHORIZED'' ''Organization not found''), w)
                else
                  (let bs = arg_bytes args;
                       filename = arg_filename args;
                       category = arg_category args;
                       mimeType = (if arg_mimeType args \<noteq> [] then arg_mimeType args
                                   else guessMimeType env filename bs);
                       b = \<lparr>blobParts = bs, blobType = mimeType\<rparr>;
                       (storageId, w1) = storage_store b w;
                       (extracted, w2) =
                         call_extractTextContent env
                           \<lparr>ex_storageId = storageId, ex_filename = filename,
                            ex_bytes = bs, ex_mimeType = mimeType\<rparr> w1
                   in (case extracted of
                         Inl err \<Rightarrow> (Inl err, w2)
                       | Inr text \<Rightarrow>
                           (let (h, w3) = call_contentHashFromArrayBuffer env bs w2;
                                (added, w4) =
                                  rag_add env
                                    \<lparr>add_namespace = org, add_text = text, add_key = filename,
                                     add_title = filename,
                                     add_metadata =
                                       \<lparr>md_storageId = Some storageId, md_uploadedBy = Some org,
                                        md_filename = Some filename, md_category = category\<rparr>,
                                     add_contentHash = h\<rparr> w3
                            in (case added of
                                  Inl err \<Rightarrow> (Inl err, w4)
                                | Inr (eid, created) \<Rightarrow>
                                    (let w5 = (if \<not> created then
                                                 console_debug
                                                   ''This entry already exists, skipping upload metadata'' w4
                                               else w4);
                                         (url, w6) = storage_getUrl env storageId w5
                                     in (Inr [(''url'', (case url of None \<Rightarrow> JSNull
                                                         | Some u \<Rightarrow> JSString u)),
                                              (''entryId'', JSEntryId eid)], w6)))))))))"

section \<open>Notions used to state the properties\<close>

text \<open>The organization both handlers resolve from the caller's identity, if any.\<close>

definition caller_org :: "ctx \<Rightarrow> string option" where
  "caller_org c =
     (case auth_getUserIdentity c of
        None \<Rightarrow> None
      | Some identity \<Rightarrow>
          (case orgId identity of
             None \<Rightarrow> None
           | Some org \<Rightarrow> if org = [] then None else Some org))"

text \<open>The identifier the blob store hands out next, and what \<^verbatim>\<open>addFile\<close> stores under it
  and passes to the text extraction.\<close>

definition fresh_storageId :: "world \<Rightarrow> storage_id" where
  "fresh_storageId w = StorageId (storageNext w)"

definition upload_mimeType :: "env \<Rightarrow> addFile_args \<Rightarrow> string" where
  "upload_mimeType env args =
     (if arg_mimeType args \<noteq> [] then arg_mimeType args
      else guessMimeType env (arg_filename args) (arg_bytes args))"

definition upload_blob :: "env \<Rightarrow> addFile_args \<Rightarrow> blob" where
  "upload_blob env args = \<lparr>blobParts = arg_bytes args, blobType = upload_mimeType env args\<rparr>"

definition upload_extract_args :: "env \<Rightarrow> addFile_args \<Rightarrow> storage_id \<Rightarrow> extract_args" where
  "upload_extract_args env args sid =
     \<lparr>ex_storageId = sid, ex_filename = arg_filename args, ex_bytes = arg_bytes args,
      ex_mimeType = upload_mimeType env args\<rparr>"

definition upload_hash :: "env \<Rightarrow> addFile_args \<Rightarrow> string" where
  "upload_hash env args = contentHashFromArrayBuffer env (arg_bytes args)"

definition debug_line :: string where
  "debug_line = ''This entry already exists, skipping upload metadata''"

text \<open>
  The events \<^verbatim>\<open>addFile\<close> starts with once the caller is authorized (store the blob,
  extract its text), those up to the duplicate check of \<^verbatim>\<open>rag.add\<close> (hash the
  bytes, register the namespace on first use), and the Entry a new content hash leads to.
\<close>

definition upload_events :: "env \<Rightarrow> addFile_args \<Rightarrow> world \<Rightarrow> event list" where
  "upload_events env args w =
     [StorageStore (fresh_storageId w) (upload_blob env args),
      ExtractTextContent (upload_extract_args env args (fresh_storageId w))]"

definition index_events :: "addFile_args \<Rightarrow> world \<Rightarrow> string \<Rightarrow> event list" where
  "index_events args w org =
     ContentHash (arg_bytes args) #
     (if org \<in> set (namespaces w) then [] else [NamespaceCreate org])"

definition new_entry :: "env \<Rightarrow> addFile_args \<Rightarrow> world \<Rightarrow> string \<Rightarrow> entry" where
  "new_entry env args w org =
     \<lparr>entryId = EntryId (entryNext w), namespace = org, key = arg_filename args,
      title = arg_filename args, contentHash = upload_hash env args,
      entry_metadata =
        Some \<lparr>md_storageId = Some (fresh_storageId w), md_uploadedBy = Some org,
              md_filename = Some (arg_filename args), md_category = arg_category args\<rparr>\<rparr>"

definition new_chunks :: "env \<Rightarrow> world \<Rightarrow> string \<Rightarrow> string \<Rightarrow> vector list \<Rightarrow> chunk list" where
  "new_chunks env w org text vs = make_chunks (EntryId (entryNext w)) org (chunker env text) vs"

text \<open>The events a call appended to the log.\<close>

definition trace :: "world \<Rightarrow> world \<Rightarrow> event list" where
  "trace w w' = drop (length (log w)) (log w')"

text \<open>The blob an Entry points to through \<^verbatim>\<open>metadata.storageId\<close>, and its owner through
  \<^verbatim>\<open>metadata.uploadedBy\<close>.\<close>

definition entry_storageId :: "entry \<Rightarrow> storage_id option" where
  "entry_storageId e = (case entry_metadata e of None \<Rightarrow> None | Some m \<Rightarrow> md_storageId m)"

definition entry_uploadedBy :: "entry \<Rightarrow> string option" where
  "entry_uploadedBy e = (case entry_metadata e of None \<Rightarrow> None | Some m \<Rightarrow> md_uploadedBy m)"

fun storage_index :: "storage_id \<Rightarrow> nat" where
  "storage_index (StorageId n) = n"

fun entry_index :: "entry_id \<Rightarrow> nat" where
  "entry_index (EntryId n) = n"

text \<open>
  Identifiers in use were issued earlier: every stored blob, every Entry and every blob an
  Entry points to has a number below the store's next one.
\<close>

definition wf_world :: "world \<Rightarrow> bool" where
  "wf_world w =
     (list_all (\<lambda>row. storage_index (fst row) < storageNext w) (storage w) \<and>
      list_all (\<lambda>e. entry_index (entryId e) < entryNext w \<and>
                    (case entry_storageId e of
                       None \<Rightarrow> True
                     | Some sid \<Rightarrow> storage_index sid < storageNext w))
               (entries w))"

text \<open>An Entry record that is present and points to a blob that is not stored.\<close>

definition points_to_deleted_blob :: "world \<Rightarrow> entry_id \<Rightarrow> bool" where
  "points_to_deleted_blob w eid =
     (case rag_getEntry w eid of
        None \<Rightarrow> False
      | Some e \<Rightarrow>
          (case entry_storageId e of
             None \<Rightarrow> False
           | Some sid \<Rightarrow> map_of (storage w) sid = None))"

text \<open>
  The writes of a successful \<^verbatim>\<open>deleteFile\<close> on an Entry: the blob if the Entry points to
  one, then what \<^verbatim>\<open>rag.deleteAsync\<close> does.
\<close>

definition delete_events :: "entry \<Rightarrow> event list" where
  "delete_events e =
     (case entry_storageId e of None \<Rightarrow> [] | Some sid \<Rightarrow> [StorageDelete sid]) @
     [ChunksDelete (entryId e), EntryDelete (entryId e)]"

text \<open>Whitespace as \<^verbatim>\<open>String.prototype.trim\<close> sees it, within ASCII.\<close>

definition isWhitespace :: "char \<Rightarrow> bool" where
  "isWhitespace ch = (ch \<in> set [CHR '' '', CHR 0x09, CHR 0x0A, CHR 0x0B, CHR 0x0C, CHR 0x0D])"

definition blank :: "string \<Rightarrow> bool" where
  "blank s = list_all isWhitespace s"

text \<open>Whether an object literal has a field.\<close>

definition has_field :: "js_object \<Rightarrow> string \<Rightarrow> bool" where
  "has_field obj k = (map_of obj k \<noteq> None)"

section \<open>A concrete deployment\<close>

text \<open>
  Collaborators for the scenario of the specification: ``upload file "faq.txt" (bytes B)
  to namespace "acme"''.  Plain text is the only supported format, an empty file extracts
  to the empty text, and the chunker yields no chunk for the empty text.
\<close>

definition env_plain :: env where
  "env_plain =
     \<lparr>guessMimeTypeFromExtension =
        (\<lambda>f. if drop (length f - 4) f = ''.txt'' then Some ''text/plain'' else None),
      guessMimeTypeFromContents = (\<lambda>bs. None),
      contentHashFromArrayBuffer = (\<lambda>bs. replicate (length bs) CHR ''#''),
      extractTextContent =
        (\<lambda>a. if ex_mimeType a = ''text/plain''
             then Inr (if ex_bytes a = [] then [] else ''hello'')
             else Inl (Thrown ''unsupported'')),
      storageUrl = (\<lambda>sid. ''https://files/'' @ replicate (storage_index sid) CHR ''i''),
      chunker = (\<lambda>t. if t = [] then [] else [t]),
      embed = (\<lambda>t. Inr [int (length t)])\<rparr>"

definition ctx_acme :: ctx where
  "ctx_acme = \<lparr>auth_getUserIdentity = Some \<lparr>tokenIdentifier = ''user|1'', orgId = Some ''acme''\<rparr>\<rparr>"

definition ctx_other :: ctx where
  "ctx_other = \<lparr>auth_getUserIdentity = Some \<lparr>tokenIdentifier = ''user|2'', orgId = Some ''other''\<rparr>\<rparr>"

definition ctx_anonymous :: ctx where
  "ctx_anonymous = \<lparr>auth_getUserIdentity = None\<rparr>"

definition args_faq :: addFile_args where
  "args_faq = \<lparr>arg_filename = ''faq.txt'', arg_mimeType = [], arg_bytes = [104, 105],
               arg_category = None\<rparr>"

definition args_empty :: addFile_args where
  "args_empty = \<lparr>arg_filename = ''empty.txt'', arg_mimeType = [], arg_bytes = [],
                 arg_category = None\<rparr>"

definition args_binary :: addFile_args where
  "args_binary = \<lparr>arg_filename = ''dump.bin'', arg_mimeType = [], arg_bytes = [0, 255],
                  arg_category = None\<rparr>"

definition world_empty :: world where
  "world_empty = \<lparr>storage = [], storageNext = 0, namespaces = [], entries = [], entryNext = 0,
                  chunks = [], log = []\<rparr>"

definition blob_faq :: blob where
  "blob_faq = \<lparr>blobParts = [104, 105], blobType = ''text/plain''\<rparr>"

definition entry_faq :: entry where
  "entry_faq =
     \<lparr>entryId = EntryId 0, namespace = ''acme'', key = ''faq.txt'', title = ''faq.txt'',
      contentHash = ''##'',
      entry_metadata =
        Some \<lparr>md_storageId = Some (StorageId 0), md_uploadedBy = Some ''acme'',
              md_filename = Some ''faq.txt'', md_category = None\<rparr>\<rparr>"

definition chunk_faq :: chunk where
  "chunk_faq = \<lparr>chunkEntryId = EntryId 0, chunkNamespace = ''acme'', chunkOrder = 0,
                chunkText = ''hello'', chunkVector = [5]\<rparr>"

definition args_delete_faq :: deleteFile_args where
  "args_delete_faq = \<lparr>del_entryId = EntryId 0\<rparr>"

definition args_delete_missing :: deleteFile_args where
  "args_delete_missing = \<lparr>del_entryId = EntryId 7\<rparr>"

text \<open>The state after "faq.txt" was uploaded to the empty deployment by "acme".\<close>

definition world_faq :: world where
  "world_faq =
     \<lparr>storage = [(StorageId 0, blob_faq)], storageNext = 1, namespaces = [''acme''],
      entries = [entry_faq], entryNext = 1, chunks = [chunk_faq],
      log = [StorageStore (StorageId 0) blob_faq,
             ExtractTextContent \<lparr>ex_storageId = StorageId 0, ex_filename = ''faq.txt'',
                                 ex_bytes = [104, 105], ex_mimeType = ''text/plain''\<rparr>,
             ContentHash [104, 105], NamespaceCreate ''acme'',
             EntryInsert entry_faq [chunk_faq], StorageGetUrl (StorageId 0)]\<rparr>"

text \<open>The same state once "other" has a namespace of its own.\<close>

definition world_shared :: world where
  "world_shared = world_faq\<lparr>namespaces := [''acme'', ''other'']\<rparr>"

text \<open>The state after "acme" deleted that Entry.\<close>

definition world_deleted :: world where
  "world_deleted =
     world_faq\<lparr>storage := [], entries := [], chunks := [],
               log := log world_faq @
                 [StorageDelete (StorageId 0), ChunksDelete (EntryId 0), EntryDelete (EntryId 0)]\<rparr>"

text \<open>The state after "acme" tried to upload "dump.bin" to the empty deployment.\<close>

definition world_failed :: world where
  "world_failed =
     world_empty\<lparr>storage := [(StorageId 0, \<lparr>blobParts = [0, 255],
                                               blobType = ''application/octet-stream''\<rparr>)],
                 storageNext := 1,
                 log := [StorageStore (StorageId 0)
                           \<lparr>blobParts = [0, 255], blobType = ''application/octet-stream''\<rparr>,
                         ExtractTextContent
                           \<lparr>ex_storageId = StorageId 0, ex_filename = ''dump.bin'',
                            ex_bytes = [0, 255], ex_mimeType = ''application/octet-stream''\<rparr>]\<rparr>"

text \<open>The Entry that the upload of the empty file "empty.txt" by "acme" leads to.\<close>

definition entry_empty :: entry where
  "entry_empty =
     \<lparr>entryId = EntryId 0, namespace = ''acme'', key = ''empty.txt'', title = ''empty.txt'',
      contentHash = [],
      entry_metadata =
        Some \<lparr>md_storageId = Some (StorageId 0), md_uploadedBy = Some ''acme'',
              md_filename = Some ''empty.txt'', md_category = None\<rparr>\<rparr>"

section \<open>Replaying events\<close>

lemma replay_Nil [simp]: "replay [] w = w"
  by (simp add: replay_def)

lemma replay_Cons [simp]: "replay (e # es) w = replay es (perform e w)"
  by (simp add: replay_def)

lemma replay_append: "replay (es @ fs) w = replay fs (replay es w)"
  by (simp add: replay_def)

lemma log_replay: "log (replay es w) = log w @ es"
  by (induction es arbitrary: w) (simp_all add: perform_def)

lemma trace_replay: "trace w (replay es w) = es"
  by (simp add: trace_def log_replay)

lemma map_of_snoc_defined [simp]:
  "(case (m1(k \<mapsto> v) ++ m2) k of None \<Rightarrow> a | Some b \<Rightarrow> d) = d"
  by (simp add: map_add_def split: option.splits)

section \<open>The paths through addFile\<close>

lemmas handler_defs = storage_store_def call_extractTextContent_def
  call_contentHashFromArrayBuffer_def rag_add_def console_debug_def storage_getUrl_def
  upload_events_def index_events_def upload_blob_def upload_extract_args_def upload_mimeType_def
  upload_hash_def fresh_storageId_def new_entry_def new_chunks_def debug_line_def findExisting_def

lemma caller_orgD:
  "caller_org c = Some org \<Longrightarrow>
   \<exists>identity. auth_getUserIdentity c = Some identity \<and> orgId identity = Some org \<and> org \<noteq> []"
  by (auto simp: caller_org_def split: option.splits if_splits)

lemma addFile_unauthorized:
  assumes "caller_org c = None"
  shows "snd (addFile env c args w) = w"
    and "\<exists>m. fst (addFile env c args w) = Inl (ConvexError ''UNAUTHORIZED'' m)"
  using assms by (auto simp: caller_org_def addFile_def split: option.splits if_splits)

lemma addFile_extract_fails:
  assumes "caller_org c = Some org"
    and "extractTextContent env (upload_extract_args env args (fresh_storageId w)) = Inl err"
  shows "addFile env c args w = (Inl err, replay (upload_events env args w) w)"
proof -
  from caller_orgD [OF assms(1)] obtain identity where
    "auth_getUserIdentity c = Some identity" "orgId identity = Some org" "org \<noteq> []" by blast
  with assms(2) show ?thesis
    by (simp add: addFile_def handler_defs Let_def)
qed

lemma addFile_dedup:
  assumes "caller_org c = Some org"
    and "extractTextContent env (upload_extract_args env args (fresh_storageId w)) = Inr text"
    and "findExisting w org (upload_hash env args) = Some e"
  shows "addFile env c args w =
           (Inr [(''url'', JSString (storageUrl env (fresh_storageId w))),
                 (''entryId'', JSEntryId (entryId e))],
            replay (upload_events env args w @ index_events args w org @
                    [ConsoleDebug debug_line, StorageGetUrl (fresh_storageId w)]) w)"
proof -
  from caller_orgD [OF assms(1)] obtain identity where
    "auth_getUserIdentity c = Some identity" "orgId identity = Some org" "org \<noteq> []" by blast
  with assms(2,3) show ?thesis
    by (simp add: addFile_def handler_defs Let_def perform_def)
qed

lemma addFile_embed_fails:
  assumes "caller_org c = Some org"
    and "extractTextContent env (upload_extract_args env args (fresh_storageId w)) = Inr text"
    and "findExisting w org (upload_hash env args) = None"
    and "embed_all env (chunker env text) = Inl err"
  shows "addFile env c args w =
           (Inl err, replay (upload_events env args w @ index_events args w org) w)"
proof -
  from caller_orgD [OF assms(1)] obtain identity where
    "auth_getUserIdentity c = Some identity" "orgId identity = Some org" "org \<noteq> []" by blast
  with assms(2,3,4) show ?thesis
    by (simp add: addFile_def handler_defs Let_def perform_def)
qed

lemma addFile_created:
  assumes "caller_org c = Some org"
    and "extractTextContent env (upload_extract_args env args (fresh_storageId w)) = Inr text"
    and "findExisting w org (upload_hash env args) = None"
    and "embed_all env (chunker env text) = Inr vs"
  shows "addFile env c args w =
           (Inr [(''url'', JSString (storageUrl env (fresh_storageId w))),
                 (''entryId'', JSEntryId (EntryId (entryNext w)))],
            replay (upload_events env args w @ index_events args w org @
                    [EntryInsert (new_entry env args w org) (new_chunks env w org text vs),
                     StorageGetUrl (fresh_storageId w)]) w)"
proof -
  from caller_orgD [OF assms(1)] obtain identity where
    "auth_getUserIdentity c = Some identity" "orgId identity = Some org" "org \<noteq> []" by blast
  with assms(2,3,4) show ?thesis
    by (simp add: addFile_def handler_defs Let_def perform_def)
qed

section \<open>The paths through deleteFile\<close>

lemma find_entryId: "find (\<lambda>e. entryId e = eid) xs = Some e \<Longrightarrow> entryId e = eid"
  by (induction xs) (auto split: if_splits)

lemma rag_getEntry_id: "rag_getEntry w eid = Some e \<Longrightarrow> entryId e = eid"
  unfolding rag_getEntry_def by (rule find_entryId)

lemma map_of_filter_removed: "map_of (filter (\<lambda>row. fst row \<noteq> k) xs) k = None"
  by (induction xs) auto

lemma deleteFile_success:
  assumes "deleteFile c a w = (Inr (), w')"
  shows "\<exists>org e. caller_org c = Some org \<and> org \<in> set (namespaces w) \<and>
           rag_getEntry w (del_entryId a) = Some e \<and> entry_uploadedBy e = Some org \<and>
           w' = replay (delete_events e) w"
  using assms
  by (auto simp: deleteFile_def Let_def caller_org_def rag_getNamespace_def entry_uploadedBy_def
      delete_events_def entry_storageId_def rag_deleteAsync_def storage_delete_def
      dest!: rag_getEntry_id split: option.splits if_splits)

lemmas world_defs = world_faq_def world_shared_def world_empty_def entry_faq_def blob_faq_def
  chunk_faq_def ctx_acme_def ctx_other_def ctx_anonymous_def args_delete_faq_def
  args_delete_missing_def

section \<open>Rejected deletions\<close>

text \<open>
  C4, as the handler has it.  \<^verbatim>\<open>deleteFile\<close> fails with \<^verbatim>\<open>UNAUTHORIZED\<close> when the caller
  has no identity or no organization claim, and also when no namespace is registered for
  the caller's organization; once these checks have passed it fails with
  \<^verbatim>\<open>NOT_FOUND\<close> when the Entry does not exist, and with \<^verbatim>\<open>UNAUTHORIZED\<close> when
  \<^verbatim>\<open>entry.metadata.uploadedBy\<close> differs from the caller's organization.  In every failing
  case the state is the one before the call: no Entry, chunk or blob was touched.
\<close>

theorem deleteFile_rejects:
  "(caller_org c = None \<longrightarrow>
      (\<exists>m. fst (deleteFile c a w) = Inl (ConvexError ''UNAUTHORIZED'' m))) \<and>
   (\<forall>org. caller_org c = Some org \<longrightarrow>
      (rag_getNamespace w org = None \<longrightarrow>
         fst (deleteFile c a w) = Inl (ConvexError ''UNAUTHORIZED'' ''Invalid namespace'')) \<and>
      (rag_getNamespace w org \<noteq> None \<longrightarrow>
         (rag_getEntry w (del_entryId a) = None \<longrightarrow>
            fst (deleteFile c a w) = Inl (ConvexError ''NOT_FOUND'' ''Entry not found'')) \<and>
         (\<forall>e. rag_getEntry w (del_entryId a) = Some e \<and> entry_uploadedBy e \<noteq> Some org \<longrightarrow>
            fst (deleteFile c a w) =
              Inl (ConvexError ''UNAUTHORIZED'' ''Invalid Organization ID'')))) \<and>
   (\<forall>err. fst (deleteFile c a w) = Inl err \<longrightarrow> snd (deleteFile c a w) = w)"
  by (auto simp: deleteFile_def Let_def caller_org_def entry_uploadedBy_def
      split: option.splits if_splits)

text \<open>
  The four rejections on the scenario: an anonymous caller; "other" before it has a
  namespace; "acme" deleting an Entry that does not exist; "other", with a namespace,
  deleting the Entry of "acme".  Each leaves the state as it was.
\<close>

theorem deleteFile_rejects_witness:
  "(caller_org ctx_anonymous = None \<and>
    deleteFile ctx_anonymous args_delete_faq world_faq =
      (Inl (ConvexError ''UNAUTHORIZED'' ''Identity not found''), world_faq)) \<and>
   (caller_org ctx_other = Some ''other'' \<and> rag_getNamespace world_faq ''other'' = None \<and>
    deleteFile ctx_other args_delete_faq world_faq =
      (Inl (ConvexError ''UNAUTHORIZED'' ''Invalid namespace''), world_faq)) \<and>
   (caller_org ctx_acme = Some ''acme'' \<and> rag_getNamespace world_faq ''acme'' \<noteq> None \<and>
    rag_getEntry world_faq (del_entryId args_delete_missing) = None \<and>
    deleteFile ctx_acme args_delete_missing world_faq =
      (Inl (ConvexError ''NOT_FOUND'' ''Entry not found''), world_faq)) \<and>
   (rag_getNamespace world_shared ''other'' \<noteq> None \<and>
    rag_getEntry world_shared (del_entryId args_delete_faq) = Some entry_faq \<and>
    entry_uploadedBy entry_faq \<noteq> Some ''other'' \<and>
    deleteFile ctx_other args_delete_faq world_shared =
      (Inl (ConvexError ''UNAUTHORIZED'' ''Invalid Organization ID''), world_shared))"
proof -
  have org: "caller_org ctx_anonymous = None" "caller_org ctx_other = Some ''other''"
    "caller_org ctx_acme = Some ''acme''"
    by (simp_all add: caller_org_def world_defs)
  have ns: "rag_getNamespace world_faq ''other'' = None"
    "rag_getNamespace world_faq ''acme'' \<noteq> None"
    "rag_getNamespace world_shared ''other'' \<noteq> None"
    by (simp_all add: rag_getNamespace_def world_defs)
  have en: "rag_getEntry world_faq (del_entryId args_delete_missing) = None"
    "rag_getEntry world_shared (del_entryId args_delete_faq) = Some entry_faq"
    "entry_uploadedBy entry_faq \<noteq> Some ''other''"
    by (simp_all add: rag_getEntry_def entry_uploadedBy_def world_defs)
  have 1: "deleteFile ctx_anonymous args_delete_faq world_faq =
      (Inl (ConvexError ''UNAUTHORIZED'' ''Identity not found''), world_faq)"
    using deleteFile_rejects [of ctx_anonymous args_delete_faq world_faq] org
    by (simp add: deleteFile_def ctx_anonymous_def)
  have 2: "deleteFile ctx_other args_delete_faq world_faq =
      (Inl (ConvexError ''UNAUTHORIZED'' ''Invalid namespace''), world_faq)"
    using deleteFile_rejects [of ctx_other args_delete_faq world_faq] org ns
    by (simp add: prod_eq_iff)
  have 3: "deleteFile ctx_acme args_delete_missing world_faq =
      (Inl (ConvexError ''NOT_FOUND'' ''Entry not found''), world_faq)"
    using deleteFile_rejects [of ctx_acme args_delete_missing world_faq] org ns en
    by (simp add: prod_eq_iff)
  have 4: "deleteFile ctx_other args_delete_faq world_shared =
      (Inl (ConvexError ''UNAUTHORIZED'' ''Invalid Organization ID''), world_shared)"
    using deleteFile_rejects [of ctx_other args_delete_faq world_shared] org ns en
    by (simp add: prod_eq_iff)
  from org ns en 1 2 3 4 show ?thesis by simp
qed

text \<open>
  C4 as stated fails where the Entry does not exist and the caller's organization has no
  namespace yet: the caller has an identity and an organization claim, the Entry is
  missing, and the error is \<^verbatim>\<open>UNAUTHORIZED\<close>, not \<^verbatim>\<open>NOT_FOUND\<close>.
\<close>

theorem deleteFile_not_found_counterexample:
  "caller_org ctx_other = Some ''other'' \<and>
   rag_getEntry world_faq (del_entryId args_delete_missing) = None \<and>
   fst (deleteFile ctx_other args_delete_missing world_faq) =
     Inl (ConvexError ''UNAUTHORIZED'' ''Invalid namespace'') \<and>
   fst (deleteFile ctx_other args_delete_missing world_faq) \<noteq>
     Inl (ConvexError ''NOT_FOUND'' ''Entry not found'')"
  by (simp add: caller_org_def rag_getEntry_def deleteFile_def rag_getNamespace_def world_defs)

section \<open>Order of deletion\<close>

lemma find_filter_removed:
  "find (\<lambda>e. entryId e = eid) (filter (\<lambda>e. entryId e \<noteq> eid) xs) = None"
  by (induction xs) simp_all

lemma deleteFile_failure_unchanged:
  "fst (deleteFile c a w) = Inl err \<Longrightarrow> snd (deleteFile c a w) = w"
  by (auto simp: deleteFile_def Let_def split: option.splits if_splits)

lemma replay_delete_events:
  assumes "entryId e = eid"
  shows "rag_getEntry (replay (delete_events e) w) eid = None"
    and "filter (\<lambda>ch. chunkEntryId ch = eid) (chunks (replay (delete_events e) w)) = []"
    and "entry_storageId e = Some sid \<Longrightarrow> map_of (storage (replay (delete_events e) w)) sid = None"
  using assms
  by (simp_all add: delete_events_def perform_def rag_getEntry_def find_filter_removed
      map_of_filter_removed filter_empty_conv split: option.splits)

text \<open>
  C8.  In every successful execution of \<^verbatim>\<open>deleteFile\<close> the writes are, in this order:
  the deletion of the blob (when the Entry has a \<^verbatim>\<open>storageId\<close>), the deletion of the
  chunks, the deletion of the Entry record; afterwards the record, its chunks and its blob
  are gone.  A delete that does not complete is a failed mutation and changes nothing.  So
  whenever the Entry record is still there after a call, the state is the one before the
  call: a call never leaves the Entry record pointing to a blob that the call deleted.
\<close>

theorem deleteFile_dependents_first:
  assumes "deleteFile c a w = (r, w')"
  shows "(r = Inr () \<longrightarrow>
            (\<exists>e. rag_getEntry w (del_entryId a) = Some e \<and>
               trace w w' =
                 (case entry_storageId e of None \<Rightarrow> [] | Some sid \<Rightarrow> [StorageDelete sid]) @
                 [ChunksDelete (del_entryId a), EntryDelete (del_entryId a)] \<and>
               w' = replay (trace w w') w \<and>
               rag_getEntry w' (del_entryId a) = None \<and>
               filter (\<lambda>ch. chunkEntryId ch = del_entryId a) (chunks w') = [] \<and>
               (\<forall>sid. entry_storageId e = Some sid \<longrightarrow> map_of (storage w') sid = None))) \<and>
         (\<forall>err. r = Inl err \<longrightarrow> w' = w) \<and>
         (rag_getEntry w' (del_entryId a) \<noteq> None \<longrightarrow> w' = w) \<and>
         (points_to_deleted_blob w' (del_entryId a) \<longrightarrow>
            points_to_deleted_blob w (del_entryId a))"
proof (cases r)
  case (Inl err)
  with assms have "fst (deleteFile c a w) = Inl err" by simp
  then have "snd (deleteFile c a w) = w" by (rule deleteFile_failure_unchanged)
  with assms have "w' = w" by simp
  with Inl show ?thesis by simp
next
  case (Inr u)
  with assms have run: "deleteFile c a w = (Inr (), w')" by simp
  from deleteFile_success [OF run] obtain org e where
    e: "rag_getEntry w (del_entryId a) = Some e" and w': "w' = replay (delete_events e) w"
    by blast
  have id: "entryId e = del_entryId a" using e by (rule rag_getEntry_id)
  have tr: "trace w w' = delete_events e" by (simp add: w' trace_replay)
  have ev: "delete_events e =
      (case entry_storageId e of None \<Rightarrow> [] | Some sid \<Rightarrow> [StorageDelete sid]) @
      [ChunksDelete (del_entryId a), EntryDelete (del_entryId a)]"
    by (simp add: delete_events_def id)
  have gone: "rag_getEntry w' (del_entryId a) = None"
    and chunks: "filter (\<lambda>ch. chunkEntryId ch = del_entryId a) (chunks w') = []"
    and blob: "\<forall>sid. entry_storageId e = Some sid \<longrightarrow> map_of (storage w') sid = None"
    unfolding w' using replay_delete_events [OF id] by simp_all
  have success: "\<exists>e. rag_getEntry w (del_entryId a) = Some e \<and>
               trace w w' =
                 (case entry_storageId e of None \<Rightarrow> [] | Some sid \<Rightarrow> [StorageDelete sid]) @
                 [ChunksDelete (del_entryId a), EntryDelete (del_entryId a)] \<and>
               w' = replay (trace w w') w \<and>
               rag_getEntry w' (del_entryId a) = None \<and>
               filter (\<lambda>ch. chunkEntryId ch = del_entryId a) (chunks w') = [] \<and>
               (\<forall>sid. entry_storageId e = Some sid \<longrightarrow> map_of (storage w') sid = None)"
    unfolding tr using e ev w' gone chunks blob by blast
  have "\<not> points_to_deleted_blob w' (del_entryId a)"
    by (simp add: points_to_deleted_blob_def gone)
  with success gone Inr show ?thesis by simp
qed

lemmas delete_eval = deleteFile_def rag_getNamespace_def rag_getEntry_def rag_deleteAsync_def
  storage_delete_def perform_def entry_storageId_def entry_uploadedBy_def trace_def Let_def

text \<open>
  Deleting the Entry of "faq.txt": blob, chunks, then the record; nothing is left.  And
  "other" trying the same: the call fails, the record is still there, its blob is stored.
\<close>

theorem deleteFile_dependents_first_witness:
  "deleteFile ctx_acme args_delete_faq world_faq = (Inr (), world_deleted) \<and>
   trace world_faq world_deleted =
     [StorageDelete (StorageId 0), ChunksDelete (EntryId 0), EntryDelete (EntryId 0)] \<and>
   rag_getEntry world_deleted (EntryId 0) = None \<and>
   filter (\<lambda>ch. chunkEntryId ch = EntryId 0) (chunks world_deleted) = [] \<and>
   map_of (storage world_deleted) (StorageId 0) = None \<and>
   deleteFile ctx_other args_delete_faq world_shared =
     (Inl (ConvexError ''UNAUTHORIZED'' ''Invalid Organization ID''), world_shared) \<and>
   rag_getEntry world_shared (EntryId 0) = Some entry_faq \<and>
   \<not> points_to_deleted_blob world_shared (EntryId 0)"
proof -
  have run: "deleteFile ctx_acme args_delete_faq world_faq = (Inr (), world_deleted)"
    by (simp add: delete_eval world_defs world_deleted_def)
  have e: "rag_getEntry world_faq (del_entryId args_delete_faq) = Some entry_faq"
    by (simp add: rag_getEntry_def world_defs)
  have sid: "entry_storageId entry_faq = Some (StorageId 0)"
    by (simp add: entry_storageId_def entry_faq_def)
  have id: "del_entryId args_delete_faq = EntryId 0"
    by (simp add: args_delete_faq_def)
  from deleteFile_dependents_first [OF run] e sid id
  have ok: "trace world_faq world_deleted =
      [StorageDelete (StorageId 0), ChunksDelete (EntryId 0), EntryDelete (EntryId 0)] \<and>
    rag_getEntry world_deleted (EntryId 0) = None \<and>
    filter (\<lambda>ch. chunkEntryId ch = EntryId 0) (chunks world_deleted) = [] \<and>
    map_of (storage world_deleted) (StorageId 0) = None"
    by auto
  have fail: "deleteFile ctx_other args_delete_faq world_shared =
     (Inl (ConvexError ''UNAUTHORIZED'' ''Invalid Organization ID''),
      snd (deleteFile ctx_other args_delete_faq world_shared))"
    by (simp add: delete_eval world_defs)
  have there: "rag_getEntry world_shared (EntryId 0) = Some entry_faq"
    "\<not> points_to_deleted_blob world_shared (EntryId 0)"
    by (simp_all add: rag_getEntry_def points_to_deleted_blob_def entry_storageId_def world_defs)
  from deleteFile_dependents_first [OF fail]
  have "snd (deleteFile ctx_other args_delete_faq world_shared) = world_shared"
    by simp
  with fail run ok there show ?thesis by simp
qed

section \<open>Case analysis of addFile\<close>

lemma addFile_cases:
  obtains
    (unauthorized) "caller_org c = None"
  | (extract_fails) org err where "caller_org c = Some org"
      and "extractTextContent env (upload_extract_args env args (fresh_storageId w)) = Inl err"
  | (dedup) org extracted e where "caller_org c = Some org"
      and "extractTextContent env (upload_extract_args env args (fresh_storageId w)) = Inr extracted"
      and "findExisting w org (upload_hash env args) = Some e"
  | (embed_fails) org extracted err where "caller_org c = Some org"
      and "extractTextContent env (upload_extract_args env args (fresh_storageId w)) = Inr extracted"
      and "findExisting w org (upload_hash env args) = None"
      and "embed_all env (chunker env extracted) = Inl err"
  | (created) org extracted vs where "caller_org c = Some org"
      and "extractTextContent env (upload_extract_args env args (fresh_storageId w)) = Inr extracted"
      and "findExisting w org (upload_hash env args) = None"
      and "embed_all env (chunker env extracted) = Inr vs"
proof (cases "caller_org c")
  case None
  then show ?thesis by (rule unauthorized)
next
  case (Some org)
  show ?thesis
  proof (cases "extractTextContent env (upload_extract_args env args (fresh_storageId w))")
    case (Inl err)
    with Some show ?thesis by (rule extract_fails)
  next
    case (Inr extracted)
    show ?thesis
    proof (cases "findExisting w org (upload_hash env args)")
      case (Some e)
      with \<open>caller_org c = Some org\<close> Inr show ?thesis by (rule dedup)
    next
      case None
      show ?thesis
      proof (cases "embed_all env (chunker env extracted)")
        case (Inl err)
        with \<open>caller_org c = Some org\<close> Inr None show ?thesis by (rule embed_fails)
      next
        case (Inr vs)
        with \<open>caller_org c = Some org\<close> \<open>extractTextContent env _ = Inr extracted\<close> None
        show ?thesis by (rule created)
      qed
    qed
  qed
qed

text \<open>What the events of each path leave in the stores.\<close>

lemma replay_upload:
  "storage (replay (upload_events env args w) w) =
     storage w @ [(fresh_storageId w, upload_blob env args)]"
  "entries (replay (upload_events env args w) w) = entries w"
  "chunks (replay (upload_events env args w) w) = chunks w"
  by (simp_all add: upload_events_def perform_def)

lemma replay_index:
  "storage (replay (upload_events env args w @ index_events args w org) w) =
     storage w @ [(fresh_storageId w, upload_blob env args)]"
  "entries (replay (upload_events env args w @ index_events args w org) w) = entries w"
  "chunks (replay (upload_events env args w @ index_events args w org) w) = chunks w"
  "namespaces (replay (upload_events env args w @ index_events args w org) w) =
     (if org \<in> set (namespaces w) then namespaces w else namespaces w @ [org])"
  by (simp_all add: upload_events_def index_events_def perform_def)

lemma replay_dedup:
  "storage (replay (upload_events env args w @ index_events args w org @
      [ConsoleDebug s, StorageGetUrl sid]) w) =
     storage w @ [(fresh_storageId w, upload_blob env args)]"
  "entries (replay (upload_events env args w @ index_events args w org @
      [ConsoleDebug s, StorageGetUrl sid]) w) = entries w"
  "chunks (replay (upload_events env args w @ index_events args w org @
      [ConsoleDebug s, StorageGetUrl sid]) w) = chunks w"
  "namespaces (replay (upload_events env args w @ index_events args w org @
      [ConsoleDebug s, StorageGetUrl sid]) w) =
     (if org \<in> set (namespaces w) then namespaces w else namespaces w @ [org])"
  by (simp_all add: upload_events_def index_events_def perform_def)

lemma replay_created:
  "storage (replay (upload_events env args w @ index_events args w org @
      [EntryInsert e cs, StorageGetUrl sid]) w) =
     storage w @ [(fresh_storageId w, upload_blob env args)]"
  "entries (replay (upload_events env args w @ index_events args w org @
      [EntryInsert e cs, StorageGetUrl sid]) w) = entries w @ [e]"
  "chunks (replay (upload_events env args w @ index_events args w org @
      [EntryInsert e cs, StorageGetUrl sid]) w) = chunks w @ cs"
  "namespaces (replay (upload_events env args w @ index_events args w org @
      [EntryInsert e cs, StorageGetUrl sid]) w) =
     (if org \<in> set (namespaces w) then namespaces w else namespaces w @ [org])"
  by (simp_all add: upload_events_def index_events_def perform_def)

lemma wf_fresh_storage: "wf_world w \<Longrightarrow> map_of (storage w) (fresh_storageId w) = None"
proof -
  assume "wf_world w"
  then have "\<forall>row \<in> set (storage w). storage_index (fst row) < storageNext w"
    by (simp add: wf_world_def list_all_iff)
  then have "fresh_storageId w \<notin> fst ` set (storage w)"
    by (force simp: fresh_storageId_def)
  then show ?thesis by (simp add: map_of_eq_None_iff)
qed

lemma wf_entry_not_fresh:
  "wf_world w \<Longrightarrow> e \<in> set (entries w) \<Longrightarrow> entry_storageId e \<noteq> Some (fresh_storageId w)"
  by (auto simp: wf_world_def list_all_iff fresh_storageId_def split: option.splits)

lemma wf_stored_blob:
  "wf_world w \<Longrightarrow> map_of (storage w @ [(fresh_storageId w, b)]) (fresh_storageId w) = Some b"
  by (simp add: map_add_def wf_fresh_storage)

lemma findExisting_member:
  "findExisting w n h = Some e \<Longrightarrow> e \<in> set (entries w) \<and> namespace e = n \<and> contentHash e = h"
  by (auto simp: findExisting_def find_Some_iff)

lemma length_embed_all: "embed_all env ts = Inr vs \<Longrightarrow> length vs = length ts"
  by (induction ts arbitrary: vs) (auto split: sum.splits)

lemma length_make_chunks: "length vs = length ts \<Longrightarrow> length (make_chunks eid n ts vs) = length ts"
  by (simp add: make_chunks_def)

section \<open>Well-formed states\<close>

text \<open>
  The empty deployment is well-formed, and both handlers keep a state well-formed,
  whatever their outcome: the states the handlers can reach are well-formed.
\<close>

lemma wf_world_empty: "wf_world world_empty"
  by (simp add: wf_world_def world_empty_def)

lemma wf_perform_store:
  "wf_world w \<Longrightarrow> wf_world (perform (StorageStore (fresh_storageId w) b) w)"
  by (auto simp: wf_world_def perform_def fresh_storageId_def list_all_iff less_Suc_eq
      split: option.splits)

lemma wf_perform_insert:
  "wf_world w \<Longrightarrow> entryId e = EntryId (entryNext w) \<Longrightarrow>
   (case entry_storageId e of None \<Rightarrow> True | Some sid \<Rightarrow> storage_index sid < storageNext w) \<Longrightarrow>
   wf_world (perform (EntryInsert e cs) w)"
  by (auto simp: wf_world_def perform_def list_all_iff less_Suc_eq split: option.splits)

lemma wf_perform_other:
  "wf_world w \<Longrightarrow> wf_world (perform (StorageGetUrl sid) w)"
  "wf_world w \<Longrightarrow> wf_world (perform (StorageDelete sid) w)"
  "wf_world w \<Longrightarrow> wf_world (perform (ExtractTextContent xa) w)"
  "wf_world w \<Longrightarrow> wf_world (perform (ContentHash bs) w)"
  "wf_world w \<Longrightarrow> wf_world (perform (NamespaceCreate n) w)"
  "wf_world w \<Longrightarrow> wf_world (perform (ChunksDelete eid) w)"
  "wf_world w \<Longrightarrow> wf_world (perform (EntryDelete eid) w)"
  "wf_world w \<Longrightarrow> wf_world (perform (ConsoleDebug s) w)"
  by (auto simp: wf_world_def perform_def list_all_iff cong: option.case_cong)

lemma wf_replay_upload:
  "wf_world w \<Longrightarrow> wf_world (replay (upload_events env args w) w)"
  by (simp add: upload_events_def wf_perform_store wf_perform_other)

lemma wf_replay_index:
  "wf_world w \<Longrightarrow> wf_world (replay (upload_events env args w @ index_events args w org) w)"
  by (simp add: replay_append index_events_def wf_replay_upload wf_perform_other)

lemma replay_index_next:
  "storageNext (replay (upload_events env args w @ index_events args w org) w) = Suc (storageNext w)"
  "entryNext (replay (upload_events env args w @ index_events args w org) w) = entryNext w"
  by (simp_all add: upload_events_def index_events_def perform_def)

lemma wf_world_addFile:
  assumes "wf_world w"
  shows "wf_world (snd (addFile env c args w))"
proof (cases rule: addFile_cases [where c = c and env = env and args = args and w = w])
  case unauthorized
  with assms show ?thesis by (simp add: addFile_unauthorized(1))
next
  case (extract_fails org err)
  with assms show ?thesis by (simp add: addFile_extract_fails wf_replay_upload)
next
  case (dedup org extracted e)
  from assms have "wf_world (replay (upload_events env args w @ index_events args w org) w)"
    by (rule wf_replay_index)
  then show ?thesis
    by (simp add: addFile_dedup [OF dedup] replay_append [symmetric] wf_perform_other
        del: append_assoc)
       (simp add: replay_append wf_perform_other)
next
  case (embed_fails org extracted err)
  with assms show ?thesis by (simp add: addFile_embed_fails wf_replay_index)
next
  case (created org extracted vs)
  let ?w = "replay (upload_events env args w @ index_events args w org) w"
  from assms have wf: "wf_world ?w" by (rule wf_replay_index)
  have "wf_world (perform (EntryInsert (new_entry env args w org)
                    (new_chunks env w org extracted vs)) ?w)"
    using wf
    by (rule wf_perform_insert)
       (simp_all add: replay_index_next new_entry_def entry_storageId_def fresh_storageId_def)
  then show ?thesis
    by (simp add: addFile_created [OF created] append_assoc [symmetric] replay_append
        wf_perform_other del: append_assoc)
qed

lemma wf_world_deleteFile:
  assumes "wf_world w"
  shows "wf_world (snd (deleteFile c a w))"
proof (cases "fst (deleteFile c a w)")
  case (Inl err)
  then have "snd (deleteFile c a w) = w"
    by (auto simp: deleteFile_def Let_def split: option.splits if_splits)
  with assms show ?thesis by simp
next
  case (Inr u)
  then have "deleteFile c a w = (Inr (), snd (deleteFile c a w))"
    by (simp add: prod_eq_iff)
  from deleteFile_success [OF this] obtain e where
    "snd (deleteFile c a w) = replay (delete_events e) w" by auto
  with assms show ?thesis
    by (simp add: delete_events_def wf_perform_other split: option.splits)
qed

section \<open>Duplicate uploads and the blob store\<close>

lemmas add_eval = addFile_def handler_defs guessMimeType_def make_chunks_def perform_def
  trace_def Let_def

lemma trace_self [simp]: "trace w w = []"
  by (simp add: trace_def)

text \<open>
  C1, as the handler has it.  \<^verbatim>\<open>addFile\<close> stores the blob unconditionally, before the
  text is extracted and before the content hash is computed.  On a call whose namespace
  already contains an Entry with the same \<^verbatim>\<open>contentHash\<close> the events are: store, extract,
  hash, then the duplicate is found; the blob store gains exactly the blob of this call
  under a new identifier, and the entries and chunks are unchanged.
\<close>

theorem addFile_dedup_stores_blob:
  assumes "caller_org c = Some org"
    and "extractTextContent env (upload_extract_args env args (fresh_storageId w)) = Inr extracted"
    and "findExisting w org (upload_hash env args) = Some e"
  shows "trace w (snd (addFile env c args w)) =
           StorageStore (fresh_storageId w) (upload_blob env args) #
           ExtractTextContent (upload_extract_args env args (fresh_storageId w)) #
           ContentHash (arg_bytes args) #
           (if org \<in> set (namespaces w) then [] else [NamespaceCreate org]) @
           [ConsoleDebug debug_line, StorageGetUrl (fresh_storageId w)] \<and>
         storage (snd (addFile env c args w)) =
           storage w @ [(fresh_storageId w, upload_blob env args)] \<and>
         entries (snd (addFile env c args w)) = entries w \<and>
         chunks (snd (addFile env c args w)) = chunks w"
  by (simp add: addFile_dedup [OF assms] trace_replay replay_dedup)
     (simp add: upload_events_def index_events_def)

text \<open>Uploading "faq.txt" to "acme" a second time: a second blob, no second Entry.\<close>

theorem addFile_dedup_stores_blob_witness:
  "caller_org ctx_acme = Some ''acme'' \<and>
   extractTextContent env_plain (upload_extract_args env_plain args_faq (fresh_storageId world_faq))
     = Inr ''hello'' \<and>
   findExisting world_faq ''acme'' (upload_hash env_plain args_faq) = Some entry_faq \<and>
   trace world_faq (snd (addFile env_plain ctx_acme args_faq world_faq)) =
     [StorageStore (StorageId 1) blob_faq,
      ExtractTextContent \<lparr>ex_storageId = StorageId 1, ex_filename = ''faq.txt'',
                          ex_bytes = [104, 105], ex_mimeType = ''text/plain''\<rparr>,
      ContentHash [104, 105], ConsoleDebug debug_line, StorageGetUrl (StorageId 1)] \<and>
   storage (snd (addFile env_plain ctx_acme args_faq world_faq)) =
     [(StorageId 0, blob_faq), (StorageId 1, blob_faq)] \<and>
   entries (snd (addFile env_plain ctx_acme args_faq world_faq)) = [entry_faq] \<and>
   chunks (snd (addFile env_plain ctx_acme args_faq world_faq)) = [chunk_faq]"
proof -
  have 1: "caller_org ctx_acme = Some ''acme''"
    by (simp add: caller_org_def ctx_acme_def)
  have 2: "extractTextContent env_plain
      (upload_extract_args env_plain args_faq (fresh_storageId world_faq)) = Inr ''hello''"
    by (simp add: env_plain_def handler_defs guessMimeType_def args_faq_def)
  have 3: "findExisting world_faq ''acme'' (upload_hash env_plain args_faq) = Some entry_faq"
    by (simp add: env_plain_def handler_defs args_faq_def world_defs)
  from addFile_dedup_stores_blob [OF 1 2 3] 1 2 3 show ?thesis
    by (simp add: env_plain_def handler_defs guessMimeType_def args_faq_def world_defs)
qed

text \<open>
  C1 as stated fails on the second of two uploads of "faq.txt" to "acme": the blob store
  holds one blob before it and two after it, and the first event of the call is the
  store, two events before the hash.
\<close>

theorem addFile_dedup_skips_store_counterexample:
  "snd (addFile env_plain ctx_acme args_faq world_empty) = world_faq \<and>
   findExisting world_faq ''acme'' (upload_hash env_plain args_faq) = Some entry_faq \<and>
   storage world_faq = [(StorageId 0, blob_faq)] \<and>
   storage (snd (addFile env_plain ctx_acme args_faq world_faq)) =
     [(StorageId 0, blob_faq), (StorageId 1, blob_faq)] \<and>
   storage (snd (addFile env_plain ctx_acme args_faq world_faq)) \<noteq> storage world_faq \<and>
   take 3 (trace world_faq (snd (addFile env_plain ctx_acme args_faq world_faq))) =
     [StorageStore (StorageId 1) blob_faq,
      ExtractTextContent \<lparr>ex_storageId = StorageId 1, ex_filename = ''faq.txt'',
                          ex_bytes = [104, 105], ex_mimeType = ''text/plain''\<rparr>,
      ContentHash [104, 105]]"
  by (simp add: add_eval env_plain_def args_faq_def world_defs)

section \<open>What addFile returns\<close>

text \<open>
  C3, as the handler has it.  Every successful call of \<^verbatim>\<open>addFile\<close> returns an object
  with exactly two fields: \<^verbatim>\<open>url\<close>, a string, the URL of the blob this call stored, and
  \<^verbatim>\<open>entryId\<close>.  The \<^verbatim>\<open>created\<close> flag of \<^verbatim>\<open>rag.add\<close> is not part of it.
\<close>

theorem addFile_returns_url_and_entryId:
  assumes "addFile env c args w = (Inr r, w')"
  shows "(\<exists>eid. r = [(''url'', JSString (storageUrl env (fresh_storageId w))),
                    (''entryId'', JSEntryId eid)]) \<and>
         map fst r = [''url'', ''entryId''] \<and>
         \<not> has_field r ''created''"
proof -
  have "\<exists>eid. r = [(''url'', JSString (storageUrl env (fresh_storageId w))),
                    (''entryId'', JSEntryId eid)]"
  proof (cases rule: addFile_cases [where c = c and env = env and args = args and w = w])
    case unauthorized
    from addFile_unauthorized(2) [OF this, of env args w] assms show ?thesis by auto
  next
    case (extract_fails org err)
    from addFile_extract_fails [OF this] assms show ?thesis by simp
  next
    case (dedup org extracted e)
    from addFile_dedup [OF this] assms show ?thesis by auto
  next
    case (embed_fails org extracted err)
    from addFile_embed_fails [OF this] assms show ?thesis by simp
  next
    case (created org extracted vs)
    from addFile_created [OF this] assms show ?thesis by auto
  qed
  then show ?thesis
    by (auto simp: has_field_def)
qed

text \<open>The first upload of "faq.txt" to "acme".\<close>

theorem addFile_returns_url_and_entryId_witness:
  "addFile env_plain ctx_acme args_faq world_empty =
     (Inr [(''url'', JSString ''https://files/''), (''entryId'', JSEntryId (EntryId 0))],
      world_faq) \<and>
   storageUrl env_plain (fresh_storageId world_empty) = ''https://files/'' \<and>
   map fst [(''url'', JSString ''https://files/''), (''entryId'', JSEntryId (EntryId 0))] =
     [''url'', ''entryId''] \<and>
   \<not> has_field [(''url'', JSString ''https://files/''), (''entryId'', JSEntryId (EntryId 0))]
     ''created''"
proof -
  have run: "addFile env_plain ctx_acme args_faq world_empty =
     (Inr [(''url'', JSString ''https://files/''), (''entryId'', JSEntryId (EntryId 0))],
      world_faq)"
    by (simp add: add_eval env_plain_def args_faq_def world_defs)
  have url: "storageUrl env_plain (fresh_storageId world_empty) = ''https://files/''"
    by (simp add: env_plain_def fresh_storageId_def world_empty_def)
  from addFile_returns_url_and_entryId [OF run] run url show ?thesis
    by simp
qed

text \<open>
  C3 as stated fails on the first upload of "faq.txt" to "acme": the call succeeds and the
  object it returns has no \<^verbatim>\<open>created\<close> field.
\<close>

theorem addFile_created_flag_counterexample:
  "fst (addFile env_plain ctx_acme args_faq world_empty) =
     Inr [(''url'', JSString ''https://files/''), (''entryId'', JSEntryId (EntryId 0))] \<and>
   \<not> has_field [(''url'', JSString ''https://files/''), (''entryId'', JSEntryId (EntryId 0))]
     ''created''"
  by (simp add: add_eval env_plain_def args_faq_def world_defs has_field_def)

section \<open>Failed ingestion\<close>

text \<open>
  C5, as the handler has it.  When \<^verbatim>\<open>addFile\<close> fails after the caller was authorized,
  the error is the one thrown by the text extraction or by the embedding call of the
  indexing; the handler performs no cleanup: the blob it stored stays in the blob store,
  no blob is deleted, and no Entry or chunk is created.
\<close>

theorem addFile_failure_keeps_blob:
  assumes "caller_org c = Some org"
    and "addFile env c args w = (Inl err, w')"
  shows "(extractTextContent env (upload_extract_args env args (fresh_storageId w)) = Inl err \<or>
          (\<exists>extracted.
             extractTextContent env (upload_extract_args env args (fresh_storageId w)) =
               Inr extracted \<and>
             embed_all env (chunker env extracted) = Inl err)) \<and>
         storage w' = storage w @ [(fresh_storageId w, upload_blob env args)] \<and>
         (\<forall>sid. StorageDelete sid \<notin> set (trace w w')) \<and>
         entries w' = entries w \<and> chunks w' = chunks w"
proof (cases rule: addFile_cases [where c = c and env = env and args = args and w = w])
  case unauthorized
  with assms(1) show ?thesis by simp
next
  case (extract_fails org' err')
  from addFile_extract_fails [OF this] assms(2)
  have "w' = replay (upload_events env args w) w" and "err' = err" by simp_all
  with extract_fails(2) show ?thesis
    by (simp add: trace_replay replay_upload) (simp add: upload_events_def)
next
  case (dedup org' extracted e)
  from addFile_dedup [OF this] assms(2) show ?thesis by simp
next
  case (embed_fails org' extracted err')
  from addFile_embed_fails [OF this] assms(2)
  have "w' = replay (upload_events env args w @ index_events args w org') w" and "err' = err"
    by simp_all
  with embed_fails(2,4) show ?thesis
    by (simp add: trace_replay replay_index) (simp add: upload_events_def index_events_def)
next
  case (created org' extracted vs)
  from addFile_created [OF this] assms(2) show ?thesis by simp
qed

text \<open>"acme" uploads "dump.bin", a format the extraction rejects: the blob stays.\<close>

theorem addFile_failure_keeps_blob_witness:
  "caller_org ctx_acme = Some ''acme'' \<and>
   addFile env_plain ctx_acme args_binary world_empty =
     (Inl (Thrown ''unsupported''), world_failed) \<and>
   extractTextContent env_plain
     (upload_extract_args env_plain args_binary (fresh_storageId world_empty)) =
     Inl (Thrown ''unsupported'') \<and>
   storage world_failed =
     [(StorageId 0, \<lparr>blobParts = [0, 255], blobType = ''application/octet-stream''\<rparr>)] \<and>
   StorageDelete (StorageId 0) \<notin> set (trace world_empty world_failed) \<and>
   entries world_failed = [] \<and> chunks world_failed = []"
proof -
  have org: "caller_org ctx_acme = Some ''acme''"
    by (simp add: caller_org_def ctx_acme_def)
  have run: "addFile env_plain ctx_acme args_binary world_empty =
     (Inl (Thrown ''unsupported''), world_failed)"
    by (simp add: add_eval env_plain_def args_binary_def world_defs world_failed_def)
  have ex: "extractTextContent env_plain
     (upload_extract_args env_plain args_binary (fresh_storageId world_empty)) =
     Inl (Thrown ''unsupported'')"
    by (simp add: env_plain_def handler_defs guessMimeType_def args_binary_def)
  have blob: "upload_blob env_plain args_binary =
     \<lparr>blobParts = [0, 255], blobType = ''application/octet-stream''\<rparr>"
    by (simp add: env_plain_def handler_defs guessMimeType_def args_binary_def)
  from addFile_failure_keeps_blob [OF org run] org run ex blob show ?thesis
    by (simp add: fresh_storageId_def world_empty_def)
qed

text \<open>
  C5 as stated fails on the upload of "dump.bin": the text extraction throws after the
  blob was stored, the call fails, and the blob is in the blob store afterwards; the call
  made no deletion.
\<close>

theorem addFile_cleanup_counterexample:
  "fst (addFile env_plain ctx_acme args_binary world_empty) = Inl (Thrown ''unsupported'') \<and>
   map_of (storage world_empty) (StorageId 0) = None \<and>
   map_of (storage (snd (addFile env_plain ctx_acme args_binary world_empty))) (StorageId 0) =
     Some \<lparr>blobParts = [0, 255], blobType = ''application/octet-stream''\<rparr> \<and>
   trace world_empty (snd (addFile env_plain ctx_acme args_binary world_empty)) =
     [StorageStore (StorageId 0) \<lparr>blobParts = [0, 255], blobType = ''application/octet-stream''\<rparr>,
      ExtractTextContent \<lparr>ex_storageId = StorageId 0, ex_filename = ''dump.bin'',
                          ex_bytes = [0, 255], ex_mimeType = ''application/octet-stream''\<rparr>]"
  by (simp add: add_eval env_plain_def args_binary_def world_defs)

section \<open>Blank documents\<close>

text \<open>
  C6, as the handler has it.  \<^verbatim>\<open>addFile\<close> makes no check of the extracted text.  For
  a document whose extracted text is empty or all-whitespace, under a content hash new to
  the namespace and with the embedding calls succeeding, the call succeeds and commits an
  Entry, with exactly as many chunks as the chunker yields for that text: none if it
  yields none.
\<close>

theorem addFile_blank_text_ingested:
  assumes "caller_org c = Some org"
    and "extractTextContent env (upload_extract_args env args (fresh_storageId w)) = Inr extracted"
    and "blank extracted"
    and "findExisting w org (upload_hash env args) = None"
    and "embed_all env (chunker env extracted) = Inr vs"
  shows "fst (addFile env c args w) =
           Inr [(''url'', JSString (storageUrl env (fresh_storageId w))),
                (''entryId'', JSEntryId (EntryId (entryNext w)))] \<and>
         entries (snd (addFile env c args w)) = entries w @ [new_entry env args w org] \<and>
         chunks (snd (addFile env c args w)) = chunks w @ new_chunks env w org extracted vs \<and>
         length (new_chunks env w org extracted vs) = length (chunker env extracted)"
  using length_embed_all [OF assms(5)]
  by (simp add: addFile_created [OF assms(1,2,4,5)] replay_created)
     (simp add: new_chunks_def length_make_chunks)

text \<open>"acme" uploads the empty file "empty.txt": an Entry with no chunk.\<close>

theorem addFile_blank_text_ingested_witness:
  "caller_org ctx_acme = Some ''acme'' \<and>
   extractTextContent env_plain
     (upload_extract_args env_plain args_empty (fresh_storageId world_empty)) = Inr [] \<and>
   blank [] \<and>
   findExisting world_empty ''acme'' (upload_hash env_plain args_empty) = None \<and>
   embed_all env_plain (chunker env_plain []) = Inr [] \<and>
   fst (addFile env_plain ctx_acme args_empty world_empty) =
     Inr [(''url'', JSString ''https://files/''), (''entryId'', JSEntryId (EntryId 0))] \<and>
   entries (snd (addFile env_plain ctx_acme args_empty world_empty)) = [entry_empty] \<and>
   chunks (snd (addFile env_plain ctx_acme args_empty world_empty)) = []"
proof -
  have 1: "caller_org ctx_acme = Some ''acme''"
    by (simp add: caller_org_def ctx_acme_def)
  have 2: "extractTextContent env_plain
     (upload_extract_args env_plain args_empty (fresh_storageId world_empty)) = Inr []"
    by (simp add: env_plain_def handler_defs guessMimeType_def args_empty_def)
  have 3: "blank []" by (simp add: blank_def)
  have 4: "findExisting world_empty ''acme'' (upload_hash env_plain args_empty) = None"
    by (simp add: findExisting_def world_empty_def)
  have 5: "embed_all env_plain (chunker env_plain []) = Inr []"
    by (simp add: env_plain_def)
  have 6: "new_entry env_plain args_empty world_empty ''acme'' = entry_empty"
    by (simp add: new_entry_def entry_empty_def env_plain_def args_empty_def world_empty_def
        upload_hash_def fresh_storageId_def)
  have 7: "new_chunks env_plain world_empty ''acme'' [] [] = []"
    by (simp add: new_chunks_def make_chunks_def env_plain_def)
  from addFile_blank_text_ingested [OF 1 2 3 4 5] 1 2 3 4 5 6 7 show ?thesis
    by (simp add: env_plain_def fresh_storageId_def world_empty_def)
qed

text \<open>
  C6 as stated fails on the upload of the empty file "empty.txt": its extracted text is
  empty, the call returns without an error, and afterwards there is an Entry and no chunk.
\<close>

theorem addFile_blank_text_counterexample:
  "extractTextContent env_plain
     (upload_extract_args env_plain args_empty (fresh_storageId world_empty)) = Inr [] \<and>
   blank [] \<and>
   fst (addFile env_plain ctx_acme args_empty world_empty) =
     Inr [(''url'', JSString ''https://files/''), (''entryId'', JSEntryId (EntryId 0))] \<and>
   entries world_empty = [] \<and>
   entries (snd (addFile env_plain ctx_acme args_empty world_empty)) = [entry_empty] \<and>
   chunks (snd (addFile env_plain ctx_acme args_empty world_empty)) = []"
  by (simp add: add_eval env_plain_def args_empty_def world_defs entry_empty_def blank_def)

section \<open>Ownership of created entries\<close>

text \<open>
  C9.  Every Entry that a call of \<^verbatim>\<open>addFile\<close> creates (it is in the entry store after the
  call and was not before) has as its namespace and as its \<^verbatim>\<open>metadata.uploadedBy\<close> the
  organization of the authenticated caller, and its \<^verbatim>\<open>metadata.storageId\<close> is the
  identifier under which this same call stored the blob, where the blob is found afterwards.
\<close>

theorem addFile_entry_owned_by_caller:
  assumes "wf_world w"
    and "addFile env c args w = (r, w')"
    and "e \<in> set (entries w')"
    and "e \<notin> set (entries w)"
  shows "caller_org c = Some (namespace e) \<and>
         entry_uploadedBy e = Some (namespace e) \<and>
         entry_storageId e = Some (fresh_storageId w) \<and>
         map_of (storage w) (fresh_storageId w) = None \<and>
         StorageStore (fresh_storageId w) (upload_blob env args) \<in> set (trace w w') \<and>
         map_of (storage w') (fresh_storageId w) = Some (upload_blob env args)"
proof (cases rule: addFile_cases [where c = c and env = env and args = args and w = w])
  case unauthorized
  from addFile_unauthorized(1) [OF this, of env args w] assms(2-4) show ?thesis by simp
next
  case (extract_fails org err)
  from addFile_extract_fails [OF this] assms(2-4) show ?thesis
    by (auto simp: replay_upload)
next
  case (dedup org extracted e0)
  from addFile_dedup [OF this] assms(2-4) show ?thesis
    by (auto simp: replay_dedup)
next
  case (embed_fails org extracted err)
  from addFile_embed_fails [OF this] assms(2-4) show ?thesis
    by (auto simp: replay_index)
next
  case (created org extracted vs)
  from addFile_created [OF this] assms(2)
  have w': "w' = replay (upload_events env args w @ index_events args w org @
                    [EntryInsert (new_entry env args w org) (new_chunks env w org extracted vs),
                     StorageGetUrl (fresh_storageId w)]) w"
    by simp
  have st: "storage w' = storage w @ [(fresh_storageId w, upload_blob env args)]"
    and en: "entries w' = entries w @ [new_entry env args w org]"
    by (simp_all add: w' replay_created)
  from en assms(3,4) have e: "e = new_entry env args w org" by simp
  have blob: "map_of (storage w') (fresh_storageId w) = Some (upload_blob env args)"
    unfolding st using assms(1) by (rule wf_stored_blob)
  have tr: "StorageStore (fresh_storageId w) (upload_blob env args) \<in> set (trace w w')"
    by (simp add: w' trace_replay) (simp add: upload_events_def)
  from created(1) blob tr assms(1) show ?thesis
    by (simp add: e new_entry_def entry_uploadedBy_def entry_storageId_def wf_fresh_storage)
qed

text \<open>The Entry created by the first upload of "faq.txt" to "acme".\<close>

theorem addFile_entry_owned_by_caller_witness:
  "wf_world world_empty \<and>
   addFile env_plain ctx_acme args_faq world_empty =
     (Inr [(''url'', JSString ''https://files/''), (''entryId'', JSEntryId (EntryId 0))],
      world_faq) \<and>
   entry_faq \<in> set (entries world_faq) \<and> entry_faq \<notin> set (entries world_empty) \<and>
   caller_org ctx_acme = Some ''acme'' \<and> namespace entry_faq = ''acme'' \<and>
   entry_uploadedBy entry_faq = Some ''acme'' \<and>
   entry_storageId entry_faq = Some (StorageId 0) \<and>
   map_of (storage world_empty) (StorageId 0) = None \<and>
   StorageStore (StorageId 0) blob_faq \<in> set (trace world_empty world_faq) \<and>
   map_of (storage world_faq) (StorageId 0) = Some blob_faq"
proof -
  have 0: "wf_world world_empty"
    by (simp add: wf_world_def world_empty_def)
  have run: "addFile env_plain ctx_acme args_faq world_empty =
     (Inr [(''url'', JSString ''https://files/''), (''entryId'', JSEntryId (EntryId 0))],
      world_faq)"
    by (simp add: add_eval env_plain_def args_faq_def world_defs)
  have 1: "entry_faq \<in> set (entries world_faq)" "entry_faq \<notin> set (entries world_empty)"
    by (simp_all add: world_faq_def world_empty_def)
  have 2: "fresh_storageId world_empty = StorageId 0" "namespace entry_faq = ''acme''"
    "upload_blob env_plain args_faq = blob_faq"
    by (simp_all add: fresh_storageId_def world_defs env_plain_def handler_defs
        guessMimeType_def args_faq_def)
  from addFile_entry_owned_by_caller [OF 0 run 1] 0 run 1 2 show ?thesis
    by simp
qed

section \<open>The URL returned for a duplicate\<close>

text \<open>
  C10.  When \<^verbatim>\<open>addFile\<close> is called with content that duplicates an existing Entry of the
  same namespace, the URL it returns is the one of the blob stored by this very call: its
  identifier was not in the blob store before, no Entry points to it afterwards (the
  existing Entry in particular points elsewhere), and the call does not delete it: the blob
  is in the store when the call returns.
\<close>

theorem addFile_dedup_returns_fresh_url:
  assumes "wf_world w"
    and "caller_org c = Some org"
    and "extractTextContent env (upload_extract_args env args (fresh_storageId w)) = Inr extracted"
    and "findExisting w org (upload_hash env args) = Some e"
    and "addFile env c args w = (r, w')"
  shows "r = Inr [(''url'', JSString (storageUrl env (fresh_storageId w))),
                  (''entryId'', JSEntryId (entryId e))] \<and>
         fst (storage_getUrl env (fresh_storageId w) w') = Some (storageUrl env (fresh_storageId w)) \<and>
         map_of (storage w) (fresh_storageId w) = None \<and>
         map_of (storage w') (fresh_storageId w) = Some (upload_blob env args) \<and>
         (\<forall>e' \<in> set (entries w'). entry_storageId e' \<noteq> Some (fresh_storageId w)) \<and>
         entry_storageId e \<noteq> Some (fresh_storageId w) \<and>
         StorageDelete (fresh_storageId w) \<notin> set (trace w w')"
proof -
  from addFile_dedup [OF assms(2-4)] assms(5)
  have r: "r = Inr [(''url'', JSString (storageUrl env (fresh_storageId w))),
                  (''entryId'', JSEntryId (entryId e))]"
    and w': "w' = replay (upload_events env args w @ index_events args w org @
                    [ConsoleDebug debug_line, StorageGetUrl (fresh_storageId w)]) w"
    by simp_all
  have st: "storage w' = storage w @ [(fresh_storageId w, upload_blob env args)]"
    and en: "entries w' = entries w"
    by (simp_all add: w' replay_dedup)
  have blob: "map_of (storage w') (fresh_storageId w) = Some (upload_blob env args)"
    unfolding st using assms(1) by (rule wf_stored_blob)
  have e: "e \<in> set (entries w)" using findExisting_member [OF assms(4)] by simp
  have tr: "StorageDelete (fresh_storageId w) \<notin> set (trace w w')"
    by (simp add: w' trace_replay) (simp add: upload_events_def index_events_def)
  from r blob e tr en assms(1) show ?thesis
    by (auto simp: wf_fresh_storage wf_entry_not_fresh storage_getUrl_def)
qed

text \<open>The second upload of "faq.txt" to "acme" returns the URL of the second blob.\<close>

theorem addFile_dedup_returns_fresh_url_witness:
  "wf_world world_faq \<and> caller_org ctx_acme = Some ''acme'' \<and>
   findExisting world_faq ''acme'' (upload_hash env_plain args_faq) = Some entry_faq \<and>
   fresh_storageId world_faq = StorageId 1 \<and>
   fst (addFile env_plain ctx_acme args_faq world_faq) =
     Inr [(''url'', JSString ''https://files/i''), (''entryId'', JSEntryId (EntryId 0))] \<and>
   map_of (storage world_faq) (StorageId 1) = None \<and>
   map_of (storage (snd (addFile env_plain ctx_acme args_faq world_faq))) (StorageId 1) =
     Some blob_faq \<and>
   entry_storageId entry_faq = Some (StorageId 0) \<and>
   StorageDelete (StorageId 1) \<notin>
     set (trace world_faq (snd (addFile env_plain ctx_acme args_faq world_faq)))"
proof -
  have 0: "wf_world world_faq"
    by (simp add: wf_world_def world_defs entry_storageId_def)
  have 1: "caller_org ctx_acme = Some ''acme''"
    by (simp add: caller_org_def ctx_acme_def)
  have 2: "extractTextContent env_plain
      (upload_extract_args env_plain args_faq (fresh_storageId world_faq)) = Inr ''hello''"
    by (simp add: env_plain_def handler_defs guessMimeType_def args_faq_def)
  have 3: "findExisting world_faq ''acme'' (upload_hash env_plain args_faq) = Some entry_faq"
    by (simp add: env_plain_def handler_defs args_faq_def world_defs)
  have 4: "addFile env_plain ctx_acme args_faq world_faq =
     (fst (addFile env_plain ctx_acme args_faq world_faq),
      snd (addFile env_plain ctx_acme args_faq world_faq))"
    by simp
  have 5: "fresh_storageId world_faq = StorageId 1" "entryId entry_faq = EntryId 0"
    "storageUrl env_plain (StorageId 1) = ''https://files/i''"
    "upload_blob env_plain args_faq = blob_faq"
    "entry_storageId entry_faq = Some (StorageId 0)"
    by (simp_all add: fresh_storageId_def world_defs env_plain_def handler_defs
        guessMimeType_def args_faq_def entry_storageId_def)
  from addFile_dedup_returns_fresh_url [OF 0 1 2 3 4] 0 1 3 5 show ?thesis
    by simp
qed

section \<open>Uploading the same bytes twice\<close>

lemma findExisting_entries:
  "entries w' = entries w \<Longrightarrow> findExisting w' n h = findExisting w n h"
  by (simp add: findExisting_def)

lemma find_snoc:
  "find P (xs @ [x]) = (case find P xs of None \<Rightarrow> if P x then Some x else None | Some y \<Rightarrow> Some y)"
  by (induction xs) simp_all

lemma findExisting_snoc:
  "findExisting w n h = None \<Longrightarrow> entries w' = entries w @ [e] \<Longrightarrow>
   namespace e = n \<Longrightarrow> contentHash e = h \<Longrightarrow> findExisting w' n h = Some e"
  by (simp add: findExisting_def find_snoc)

lemma findExisting_none_filter:
  "findExisting w n h = None \<Longrightarrow>
   filter (\<lambda>e. namespace e = n \<and> contentHash e = h) (entries w) = []"
  by (auto simp: findExisting_def find_None_iff filter_empty_conv)

lemma rag_add_existing:
  assumes "add_namespace a \<in> set (namespaces w)"
    and "findExisting w (add_namespace a) (add_contentHash a) = Some e"
  shows "rag_add env a w = (Inr (entryId e, False), w)"
  using assms by (simp add: rag_add_def)

lemma replay_hashed:
  "entries (replay (upload_events env args w @ [ContentHash bs]) w) = entries w"
  "namespaces (replay (upload_events env args w @ [ContentHash bs]) w) = namespaces w"
  by (simp_all add: upload_events_def perform_def)

text \<open>
  C2.  For every byte sequence and namespace, when \<^verbatim>\<open>addFile\<close> has succeeded on the
  bytes and is called again on the same bytes by a caller of the same organization (and
  the text extraction of the second call succeeds), the second call succeeds and returns
  the \<^verbatim>\<open>entryId\<close> of the first; its \<^verbatim>\<open>rag.add\<close> resolves to that identifier with
  \<^verbatim>\<open>created = false\<close>, so the handler logs the duplicate, and it creates no Entry and no
  chunk.  If the namespace had no Entry with this content hash before the first call,
  the first call created one, and after both calls it is the only Entry of the namespace
  with this hash.
\<close>

theorem addFile_twice_one_entry:
  assumes "caller_org c = Some n"
    and "arg_bytes args2 = arg_bytes args1"
    and "addFile env c args1 w = (Inr r1, w1)"
    and "extractTextContent env (upload_extract_args env args2 (fresh_storageId w1)) =
           Inr extracted2"
    and "addFile env c args2 w1 = (r2, w2)"
  shows "\<exists>eid. map_of r1 ''entryId'' = Some (JSEntryId eid) \<and>
           r2 = Inr [(''url'', JSString (storageUrl env (fresh_storageId w1))),
                     (''entryId'', JSEntryId eid)] \<and>
           (\<forall>a. add_namespace a = n \<and> add_contentHash a = upload_hash env args2 \<longrightarrow>
              fst (rag_add env a
                     (replay (upload_events env args2 w1 @ [ContentHash (arg_bytes args2)]) w1)) =
                Inr (eid, False)) \<and>
           trace w1 w2 =
             upload_events env args2 w1 @
             [ContentHash (arg_bytes args2), ConsoleDebug debug_line,
              StorageGetUrl (fresh_storageId w1)] \<and>
           entries w2 = entries w1 \<and> chunks w2 = chunks w1 \<and>
           (findExisting w n (upload_hash env args1) = None \<longrightarrow>
              eid = EntryId (entryNext w) \<and>
              entries w2 = entries w @ [new_entry env args1 w n] \<and>
              filter (\<lambda>e. namespace e = n \<and> contentHash e = upload_hash env args1) (entries w2) =
                [new_entry env args1 w n])"
proof -
  have h: "upload_hash env args2 = upload_hash env args1"
    by (simp add: upload_hash_def assms(2))
  have first: "\<exists>e. findExisting w1 n (upload_hash env args1) = Some e \<and>
      map_of r1 ''entryId'' = Some (JSEntryId (entryId e)) \<and> n \<in> set (namespaces w1) \<and>
      (findExisting w n (upload_hash env args1) = None \<longrightarrow>
         e = new_entry env args1 w n \<and> entries w1 = entries w @ [new_entry env args1 w n])"
  proof (cases rule: addFile_cases [where c = c and env = env and args = args1 and w = w])
    case unauthorized
    with assms(1) show ?thesis by simp
  next
    case (extract_fails org err)
    from addFile_extract_fails [OF this] assms(3) show ?thesis by simp
  next
    case (embed_fails org extracted err)
    from addFile_embed_fails [OF this] assms(3) show ?thesis by simp
  next
    case (dedup org extracted e)
    with assms(1) have org: "org = n" by simp
    from addFile_dedup [OF dedup] assms(3)
    have r1: "r1 = [(''url'', JSString (storageUrl env (fresh_storageId w))),
                    (''entryId'', JSEntryId (entryId e))]"
      and w1: "w1 = replay (upload_events env args1 w @ index_events args1 w org @
                    [ConsoleDebug debug_line, StorageGetUrl (fresh_storageId w)]) w"
      by simp_all
    have en: "entries w1 = entries w" and ns: "n \<in> set (namespaces w1)"
      by (simp_all add: w1 replay_dedup org)
    from dedup(3) r1 ns show ?thesis
      by (simp add: findExisting_entries [OF en] org)
  next
    case (created org extracted vs)
    with assms(1) have org: "org = n" by simp
    from addFile_created [OF created] assms(3)
    have r1: "r1 = [(''url'', JSString (storageUrl env (fresh_storageId w))),
                    (''entryId'', JSEntryId (EntryId (entryNext w)))]"
      and w1: "w1 = replay (upload_events env args1 w @ index_events args1 w org @
                    [EntryInsert (new_entry env args1 w org) (new_chunks env w org extracted vs),
                     StorageGetUrl (fresh_storageId w)]) w"
      by simp_all
    have en: "entries w1 = entries w @ [new_entry env args1 w n]"
      and ns: "n \<in> set (namespaces w1)"
      by (simp_all add: w1 replay_created org)
    have "findExisting w1 n (upload_hash env args1) = Some (new_entry env args1 w n)"
      using created(3) [unfolded org] en by (rule findExisting_snoc) (simp_all add: new_entry_def)
    with r1 en ns show ?thesis by (simp add: new_entry_def)
  qed
  then obtain e where all: "findExisting w1 n (upload_hash env args1) = Some e \<and>
      map_of r1 ''entryId'' = Some (JSEntryId (entryId e)) \<and> n \<in> set (namespaces w1) \<and>
      (findExisting w n (upload_hash env args1) = None \<longrightarrow>
         e = new_entry env args1 w n \<and> entries w1 = entries w @ [new_entry env args1 w n])" ..
  note e = all [THEN conjunct1]
    and r1 = all [THEN conjunct2, THEN conjunct1]
    and ns = all [THEN conjunct2, THEN conjunct2, THEN conjunct1]
    and fresh = all [THEN conjunct2, THEN conjunct2, THEN conjunct2]
  from e have e2: "findExisting w1 n (upload_hash env args2) = Some e" by (simp add: h)
  from addFile_dedup [OF assms(1,4) e2] assms(5)
  have r2: "r2 = Inr [(''url'', JSString (storageUrl env (fresh_storageId w1))),
                     (''entryId'', JSEntryId (entryId e))]"
    and w2: "w2 = replay (upload_events env args2 w1 @ index_events args2 w1 n @
                    [ConsoleDebug debug_line, StorageGetUrl (fresh_storageId w1)]) w1"
    by simp_all
  have ix: "index_events args2 w1 n = [ContentHash (arg_bytes args2)]"
    by (simp add: index_events_def ns)
  have tr: "trace w1 w2 = upload_events env args2 w1 @
             [ContentHash (arg_bytes args2), ConsoleDebug debug_line,
              StorageGetUrl (fresh_storageId w1)]"
    by (simp add: w2 trace_replay ix)
  have same: "entries w2 = entries w1" "chunks w2 = chunks w1"
    by (simp_all add: w2 replay_dedup)
  have add: "fst (rag_add env a
                (replay (upload_events env args2 w1 @ [ContentHash (arg_bytes args2)]) w1)) =
              Inr (entryId e, False)"
    if "add_namespace a = n \<and> add_contentHash a = upload_hash env args2" for a
  proof -
    let ?w = "replay (upload_events env args2 w1 @ [ContentHash (arg_bytes args2)]) w1"
    have "add_namespace a \<in> set (namespaces ?w)"
      using that ns by (simp add: replay_hashed)
    moreover have "findExisting ?w (add_namespace a) (add_contentHash a) = Some e"
      using that e2 by (simp add: findExisting_entries [OF replay_hashed(1)])
    ultimately show ?thesis by (simp add: rag_add_existing [where e = e])
  qed
  have one: "entryId e = EntryId (entryNext w) \<and>
      entries w2 = entries w @ [new_entry env args1 w n] \<and>
      filter (\<lambda>e. namespace e = n \<and> contentHash e = upload_hash env args1) (entries w2) =
        [new_entry env args1 w n]"
    if none: "findExisting w n (upload_hash env args1) = None"
  proof -
    from fresh none have "e = new_entry env args1 w n"
      and "entries w1 = entries w @ [new_entry env args1 w n]" by simp_all
    with same(1) findExisting_none_filter [OF none] show ?thesis
      by (simp add: new_entry_def)
  qed
  show ?thesis
  proof (intro exI [of _ "entryId e"] conjI)
    show "map_of r1 ''entryId'' = Some (JSEntryId (entryId e))" by (rule r1)
    show "r2 = Inr [(''url'', JSString (storageUrl env (fresh_storageId w1))),
                     (''entryId'', JSEntryId (entryId e))]" by (rule r2)
    show "\<forall>a. add_namespace a = n \<and> add_contentHash a = upload_hash env args2 \<longrightarrow>
              fst (rag_add env a
                     (replay (upload_events env args2 w1 @ [ContentHash (arg_bytes args2)]) w1)) =
                Inr (entryId e, False)"
      using add by (intro allI impI)
    show "trace w1 w2 =
             upload_events env args2 w1 @
             [ContentHash (arg_bytes args2), ConsoleDebug debug_line,
              StorageGetUrl (fresh_storageId w1)]" by (rule tr)
    show "entries w2 = entries w1" by (rule same(1))
    show "chunks w2 = chunks w1" by (rule same(2))
    show "findExisting w n (upload_hash env args1) = None \<longrightarrow>
              entryId e = EntryId (entryNext w) \<and>
              entries w2 = entries w @ [new_entry env args1 w n] \<and>
              filter (\<lambda>e. namespace e = n \<and> contentHash e = upload_hash env args1) (entries w2) =
                [new_entry env args1 w n]"
      using one by (intro impI)
  qed
qed

text \<open>"acme" uploads "faq.txt" twice to the empty deployment.\<close>

theorem addFile_twice_one_entry_witness:
  "caller_org ctx_acme = Some ''acme'' \<and>
   findExisting world_empty ''acme'' (upload_hash env_plain args_faq) = None \<and>
   addFile env_plain ctx_acme args_faq world_empty =
     (Inr [(''url'', JSString ''https://files/''), (''entryId'', JSEntryId (EntryId 0))],
      world_faq) \<and>
   fst (addFile env_plain ctx_acme args_faq world_faq) =
     Inr [(''url'', JSString ''https://files/i''), (''entryId'', JSEntryId (EntryId 0))] \<and>
   fst (rag_add env_plain
          \<lparr>add_namespace = ''acme'', add_text = ''hello'', add_key = ''faq.txt'',
           add_title = ''faq.txt'',
           add_metadata = \<lparr>md_storageId = Some (StorageId 1), md_uploadedBy = Some ''acme'',
                            md_filename = Some ''faq.txt'', md_category = None\<rparr>,
           add_contentHash = ''##''\<rparr>
          (replay (upload_events env_plain args_faq world_faq @ [ContentHash [104, 105]])
             world_faq)) = Inr (EntryId 0, False) \<and>
   entries (snd (addFile env_plain ctx_acme args_faq world_faq)) = [entry_faq] \<and>
   chunks (snd (addFile env_plain ctx_acme args_faq world_faq)) = [chunk_faq] \<and>
   filter (\<lambda>e. namespace e = ''acme'' \<and> contentHash e = ''##'')
     (entries (snd (addFile env_plain ctx_acme args_faq world_faq))) = [entry_faq]"
proof -
  have org: "caller_org ctx_acme = Some ''acme''"
    by (simp add: caller_org_def ctx_acme_def)
  have none: "findExisting world_empty ''acme'' (upload_hash env_plain args_faq) = None"
    by (simp add: findExisting_def world_empty_def)
  have run1: "addFile env_plain ctx_acme args_faq world_empty =
     (Inr [(''url'', JSString ''https://files/''), (''entryId'', JSEntryId (EntryId 0))],
      world_faq)"
    by (simp add: add_eval env_plain_def args_faq_def world_defs)
  have ex2: "extractTextContent env_plain
      (upload_extract_args env_plain args_faq (fresh_storageId world_faq)) = Inr ''hello''"
    by (simp add: env_plain_def handler_defs guessMimeType_def args_faq_def)
  have run2: "addFile env_plain ctx_acme args_faq world_faq =
     (fst (addFile env_plain ctx_acme args_faq world_faq),
      snd (addFile env_plain ctx_acme args_faq world_faq))"
    by simp
  have vals: "upload_hash env_plain args_faq = ''##''" "arg_bytes args_faq = [104, 105]"
    "storageUrl env_plain (fresh_storageId world_faq) = ''https://files/i''"
    "new_entry env_plain args_faq world_empty ''acme'' = entry_faq"
    "entries world_faq = [entry_faq]" "chunks world_faq = [chunk_faq]"
    "entryNext world_empty = 0" "namespace entry_faq = ''acme''" "contentHash entry_faq = ''##''"
    by (simp_all add: env_plain_def handler_defs args_faq_def world_defs)
  from addFile_twice_one_entry [OF org refl run1 ex2 run2] none org run1 vals show ?thesis
    by (elim exE conjE) simp
qed

section \<open>MIME type detection\<close>

lemma addFile_starts_with_upload:
  assumes "caller_org c = Some org"
  shows "take 2 (trace w (snd (addFile env c args w))) = upload_events env args w"
proof (cases rule: addFile_cases [where c = c and env = env and args = args and w = w])
  case unauthorized
  with assms show ?thesis by simp
next
  case (extract_fails org' err)
  show ?thesis
    by (simp add: addFile_extract_fails [OF extract_fails] trace_replay) (simp add: upload_events_def)
next
  case (dedup org' extracted e)
  show ?thesis
    by (simp add: addFile_dedup [OF dedup] trace_replay) (simp add: upload_events_def)
next
  case (embed_fails org' extracted err)
  show ?thesis
    by (simp add: addFile_embed_fails [OF embed_fails] trace_replay) (simp add: upload_events_def)
next
  case (created org' extracted vs)
  show ?thesis
    by (simp add: addFile_created [OF created] trace_replay) (simp add: upload_events_def)
qed

text \<open>
  C7.  With detectors that answer with a MIME type or with \<^verbatim>\<open>undefined\<close> (never with
  the empty string), \<^verbatim>\<open>guessMimeType\<close> returns the first defined value of the chain:
  the type derived from the extension, then the type sniffed from the contents, then
  \<^verbatim>\<open>"application/octet-stream"\<close>; the result is a non-empty string.  When the
  \<^verbatim>\<open>mimeType\<close> argument of \<^verbatim>\<open>addFile\<close> is empty, the blob is stored and the text
  extracted under the type this chain gives for the file's name and bytes.
\<close>

theorem guessMimeType_fallback_chain:
  assumes "guessMimeTypeFromExtension env filename \<noteq> Some []"
    and "guessMimeTypeFromContents env bs \<noteq> Some []"
  shows "guessMimeType env filename bs =
           (case guessMimeTypeFromExtension env filename of
              Some t \<Rightarrow> t
            | None \<Rightarrow>
                (case guessMimeTypeFromContents env bs of
                   Some t \<Rightarrow> t
                 | None \<Rightarrow> ''application/octet-stream'')) \<and>
         guessMimeType env filename bs \<noteq> [] \<and>
         (caller_org c = Some org \<and> arg_mimeType args = [] \<longrightarrow>
            take 2 (trace w (snd (addFile env c args w))) =
              [StorageStore (fresh_storageId w)
                 \<lparr>blobParts = arg_bytes args,
                  blobType = guessMimeType env (arg_filename args) (arg_bytes args)\<rparr>,
               ExtractTextContent
                 \<lparr>ex_storageId = fresh_storageId w, ex_filename = arg_filename args,
                  ex_bytes = arg_bytes args,
                  ex_mimeType = guessMimeType env (arg_filename args) (arg_bytes args)\<rparr>])"
proof -
  have chain: "guessMimeType env filename bs =
           (case guessMimeTypeFromExtension env filename of
              Some t \<Rightarrow> t
            | None \<Rightarrow>
                (case guessMimeTypeFromContents env bs of
                   Some t \<Rightarrow> t
                 | None \<Rightarrow> ''application/octet-stream''))"
    using assms by (simp add: guessMimeType_def split: option.splits)
  have nonempty: "guessMimeType env filename bs \<noteq> []"
    using assms by (simp add: guessMimeType_def Let_def split: option.splits)
  have used: "take 2 (trace w (snd (addFile env c args w))) =
              [StorageStore (fresh_storageId w)
                 \<lparr>blobParts = arg_bytes args,
                  blobType = guessMimeType env (arg_filename args) (arg_bytes args)\<rparr>,
               ExtractTextContent
                 \<lparr>ex_storageId = fresh_storageId w, ex_filename = arg_filename args,
                  ex_bytes = arg_bytes args,
                  ex_mimeType = guessMimeType env (arg_filename args) (arg_bytes args)\<rparr>]"
    if "caller_org c = Some org" and "arg_mimeType args = []"
    using that
    by (simp add: addFile_starts_with_upload upload_events_def upload_blob_def
        upload_extract_args_def upload_mimeType_def)
  from chain nonempty used show ?thesis by blast
qed

text \<open>"dump.bin": neither detector answers, the generic binary type is used.\<close>

theorem guessMimeType_fallback_chain_witness:
  "guessMimeTypeFromExtension env_plain ''dump.bin'' \<noteq> Some [] \<and>
   guessMimeTypeFromContents env_plain [0, 255] \<noteq> Some [] \<and>
   guessMimeTypeFromExtension env_plain ''dump.bin'' = None \<and>
   guessMimeTypeFromContents env_plain [0, 255] = None \<and>
   guessMimeType env_plain ''dump.bin'' [0, 255] = ''application/octet-stream'' \<and>
   caller_org ctx_acme = Some ''acme'' \<and> arg_mimeType args_binary = [] \<and>
   take 2 (trace world_empty (snd (addFile env_plain ctx_acme args_binary world_empty))) =
     [StorageStore (StorageId 0)
        \<lparr>blobParts = [0, 255], blobType = ''application/octet-stream''\<rparr>,
      ExtractTextContent
        \<lparr>ex_storageId = StorageId 0, ex_filename = ''dump.bin'', ex_bytes = [0, 255],
         ex_mimeType = ''application/octet-stream''\<rparr>]"
proof -
  have 1: "guessMimeTypeFromExtension env_plain ''dump.bin'' \<noteq> Some []"
    and 2: "guessMimeTypeFromContents env_plain [0, 255] \<noteq> Some []"
    and 3: "guessMimeTypeFromExtension env_plain ''dump.bin'' = None"
      "guessMimeTypeFromContents env_plain [0, 255] = None"
    by (simp_all add: env_plain_def)
  have 4: "caller_org ctx_acme = Some ''acme''" "arg_mimeType args_binary = []"
    "arg_filename args_binary = ''dump.bin''" "arg_bytes args_binary = [0, 255]"
    "fresh_storageId world_empty = StorageId 0"
    by (simp_all add: caller_org_def ctx_acme_def args_binary_def fresh_storageId_def
        world_empty_def)
  from guessMimeType_fallback_chain [OF 1 2, of ctx_acme "''acme''" args_binary world_empty]
    1 2 3 4
  show ?thesis by simp
qed

end
